theory Spec2Isabelle
  imports Main "HOL-Library.AList"
begin

section \<open>Python built-ins used by the package files\<close>

text \<open>
  The package modules of \<^verbatim>\<open>flopy/modflow\<close> read and write fixed-format text. The built-ins
  they call are embedded here for byte strings over ASCII: \<^verbatim>\<open>str.split()\<close> and
  \<^verbatim>\<open>str.strip()\<close> (whitespace is space, tab, line feed, vertical tab, form feed and
  carriage return), \<^verbatim>\<open>str.lower()\<close>, the \<^verbatim>\<open>in\<close> test on strings, \<^verbatim>\<open>int(token)\<close> on a
  token without whitespace (an optional sign followed by decimal digits; anything else
  raises \<^verbatim>\<open>ValueError\<close>) and the integer formats \<^verbatim>\<open>{:10d}\<close>, \<^verbatim>\<open>{:3d}\<close> and \<^verbatim>\<open>%10i\<close>.
  Exceptions are values: a computation that can raise returns \<open>pyexn + 'a\<close>.
\<close>

datatype pyexn = IndexError | ValueError | KeyError | AssertionError | UnboundLocalError
  | OtherError string

definition NL :: string where
  "NL = [CHR 0x0A]"

definition is_space :: "char \<Rightarrow> bool" where
  "is_space c = (c \<in> set [CHR 0x20, CHR 0x09, CHR 0x0A, CHR 0x0B, CHR 0x0C, CHR 0x0D])"

definition strip :: "string \<Rightarrow> string" where
  "strip s = rev (dropWhile is_space (rev (dropWhile is_space s)))"

text \<open>\<open>splitw w s\<close>: the words of \<open>s\<close>, where \<open>w\<close> is the word read so far.\<close>

fun splitw :: "string \<Rightarrow> string \<Rightarrow> string list" where
  "splitw w [] = (if w = [] then [] else [w])"
| "splitw w (c # cs) =
     (if is_space c then (if w = [] then splitw [] cs else w # splitw [] cs)
      else splitw (w @ [c]) cs)"

definition split :: "string \<Rightarrow> string list" where
  "split s = splitw [] s"

definition lower_char :: "char \<Rightarrow> char" where
  "lower_char c =
     (let n = (of_char c :: nat) in if 65 \<le> n \<and> n \<le> 90 then char_of (n + 32) else c)"

definition lower :: "string \<Rightarrow> string" where
  "lower s = map lower_char s"

text \<open>\<open>contains p s\<close> is Python's \<^verbatim>\<open>p in s\<close> on strings.\<close>

fun contains :: "string \<Rightarrow> string \<Rightarrow> bool" where
  "contains p [] = (p = [])"
| "contains p (c # cs) = (take (length p) (c # cs) = p \<or> contains p cs)"

definition is_digit :: "char \<Rightarrow> bool" where
  "is_digit c = (let n = (of_char c :: nat) in 48 \<le> n \<and> n \<le> 57)"

definition digit_of :: "char \<Rightarrow> nat" where
  "digit_of c = of_char c - 48"

definition dec_val :: "string \<Rightarrow> nat option" where
  "dec_val s =
     (if s = [] \<or> \<not> list_all is_digit s then None
      else Some (foldl (\<lambda>a c. 10 * a + digit_of c) 0 s))"

definition py_int :: "string \<Rightarrow> int option" where
  "py_int s =
     (case s of
        [] \<Rightarrow> None
      | c # cs \<Rightarrow>
          if c = CHR ''-'' then map_option (\<lambda>n. - int n) (dec_val cs)
          else if c = CHR ''+'' then map_option int (dec_val cs)
          else map_option int (dec_val s))"

text \<open>\<^verbatim>\<open>int(t[i])\<close>: \<^verbatim>\<open>IndexError\<close> when the list is too short, \<^verbatim>\<open>ValueError\<close> when the
  token is no integer.\<close>

definition int_at :: "string list \<Rightarrow> nat \<Rightarrow> pyexn + int" where
  "int_at t i =
     (if i < length t then (case py_int (t ! i) of None \<Rightarrow> Inl ValueError | Some v \<Rightarrow> Inr v)
      else Inl IndexError)"

definition digit_char :: "nat \<Rightarrow> char" where
  "digit_char d = char_of (48 + d)"

fun str_nat :: "nat \<Rightarrow> string" where
  "str_nat n = (if n < 10 then [digit_char n] else str_nat (n div 10) @ [digit_char (n mod 10)])"

declare str_nat.simps [simp del]

definition str_int :: "int \<Rightarrow> string" where
  "str_int i = (if i < 0 then CHR ''-'' # str_nat (nat (- i)) else str_nat (nat i))"

text \<open>\<open>fmt_d w i\<close> is \<^verbatim>\<open>'{:wd}'.format(i)\<close> (and \<^verbatim>\<open>'%wi' % i\<close>): right-justified in a field
  of \<open>w\<close> characters, longer when the number does not fit.\<close>

definition fmt_d :: "nat \<Rightarrow> int \<Rightarrow> string" where
  "fmt_d w i = replicate (w - length (str_int i)) (CHR 0x20) @ str_int i"

text \<open>A text file open for reading is the list of the lines \<^verbatim>\<open>readline\<close> has still to
  return, each with its terminator; at the end of the file \<^verbatim>\<open>readline\<close> returns the empty
  string. \<open>file_lines\<close> cuts the content of a file into these lines.\<close>

fun linesw :: "string \<Rightarrow> string \<Rightarrow> string list" where
  "linesw w [] = (if w = [] then [] else [w])"
| "linesw w (c # cs) =
     (if c = CHR 0x0A then (w @ [c]) # linesw [] cs else linesw (w @ [c]) cs)"

definition file_lines :: "string \<Rightarrow> string list" where
  "file_lines s = linesw [] s"

definition readline :: "string list \<Rightarrow> string \<times> string list" where
  "readline f = (case f of [] \<Rightarrow> ([], []) | l # ls \<Rightarrow> (l, ls))"

section \<open>The MT3D link package (\<^verbatim>\<open>mflmt.py\<close>)\<close>

text \<open>
  \<^verbatim>\<open>Package.__init__\<close> (not among the source files) keeps the extension and the unit
  number; they are fields of the common part of every package record. The constructor of
  \<^verbatim>\<open>ModflowLmt\<close> takes four output arguments and assigns four literals: the arguments are
  never read, so the model takes them at any type.
\<close>

record package =
  heading :: string
  url :: string
  extension :: string
  unitnumber :: int

record ModflowLmt = package +
  output_file_name :: string
  output_file_unit :: int
  output_file_header :: string
  output_file_format :: string

definition ModflowLmt_init ::
  "'n \<Rightarrow> 'u \<Rightarrow> 'h \<Rightarrow> 'f \<Rightarrow> string \<Rightarrow> int \<Rightarrow> ModflowLmt" where
  "ModflowLmt_init output_file_name' output_file_unit' output_file_header'
      output_file_format' extension' unitnumber' =
     \<lparr> heading = ''# Lmt input file for MODFLOW, generated by Flopy.'',
       url = ''lmt.htm'',
       extension = extension',
       unitnumber = unitnumber',
       output_file_name = ''mt3d_link.ftl'',
       output_file_unit = 54,
       output_file_header = ''extended'',
       output_file_format = ''unformatted'' \<rparr>"

text \<open>The content \<^verbatim>\<open>write_file\<close> writes, one \<^verbatim>\<open>f_lmt.write\<close> per line.\<close>

definition lmt_write_file :: "ModflowLmt \<Rightarrow> string" where
  "lmt_write_file self =
     heading self @ NL
     @ (''OUTPUT_FILE_NAME '' @ output_file_name self) @ NL
     @ ''OUTPUT_FILE_UNIT '' @ fmt_d 10 (output_file_unit self) @ NL
     @ (''OUTPUT_FILE_HEADER '' @ output_file_header self) @ NL
     @ (''OUTPUT_FILE_FORMAT '' @ output_file_format self) @ NL"

section \<open>Objects, collaborators and the state of a load\<close>

text \<open>
  Python objects have an identity. The values a load stores for the stress periods are
  either the empty list a \<^verbatim>\<open>current_...\<close> variable starts with, or the object returned by
  the array reader; arrays are not changed after they are read, so an object is modelled
  as its identity (a counter value, fresh for each object created) paired with its
  content. Two references are the same object exactly when the identities agree.
\<close>

datatype 'a pyval = EmptyList | Array 'a

type_synonym 'a pyobj = "nat \<times> 'a pyval"

datatype dtype = NpFloat32 | NpInt

text \<open>
  The code of \<^verbatim>\<open>flopy.utils\<close> (\<^verbatim>\<open>Util2d\<close>, \<^verbatim>\<open>Transient2d\<close>) and of \<^verbatim>\<open>mfparbc\<close> is not among
  the source files. What the package modules call there is taken as a parameter:
  \<^item> \<open>u2d_load verbose w f shape dtype name\<close> is \<^verbatim>\<open>Util2d.load(f, model, shape, dtype, name,
    ext_unit_dict)\<close>: it reads an array from the file handle \<open>f\<close>, and may read from the
    files of the unit registry; it returns the array, the lines left in \<open>f\<close> and the new
    state \<open>w\<close> of the model and registry, or raises;
  \<^item> \<open>loadarray w f npar verbose\<close> is \<^verbatim>\<open>mfparbc.loadarray(f, npar, model.verbose)\<close>;
  \<^item> \<open>parameter_bcfill verbose w shape parm_dict pak_parms\<close> is \<^verbatim>\<open>mfparbc.parameter_bcfill(model,
    shape, parm_dict, pak_parms)\<close>;
  \<^item> \<open>transient2d verbose w n shape dtype value name\<close> is \<^verbatim>\<open>Transient2d(model, shape, dtype,
    value, name=name)\<close>: it builds the \<^verbatim>\<open>Transient2d\<close> object of a quantity from the value
    given for it, or raises; \<open>n\<close> is the next free object identity, for the objects it
    creates, and it returns the object, the new state and the next free identity;
  \<^item> \<open>util_2d verbose w n shape dtype a name\<close> is \<^verbatim>\<open>util_2d(model, shape, dtype, a, name=name)\<close>,
    in the same way;
  \<^item> \<open>get_kper_entry t n\<close> is \<^verbatim>\<open>t.get_kper_entry(n)\<close> of a \<^verbatim>\<open>Transient2d\<close>: the control code
    and the text of the array for stress period \<open>n\<close>.
  The \<^verbatim>\<open>model\<close> argument is the verbosity flag together with \<open>w\<close>. The type \<open>'t\<close> is the type of
  the \<^verbatim>\<open>Transient2d\<close> objects and \<open>'u\<close> the type of the \<^verbatim>\<open>util_2d\<close> objects.
\<close>

record 'p ModflowParBc =
  bc_parms :: "string \<rightharpoonup> ('p \<times> (string \<rightharpoonup> 'p))"

text \<open>The value a \<^verbatim>\<open>Transient2d\<close> is constructed from: the default of the package
  constructor, one value for all stress periods, or a dictionary keyed on the stress
  period (in insertion order).\<close>

datatype 'a t2d_value = Default | Value 'a | PerStep "(nat \<times> 'a pyobj) list"

record ('a, 'w, 'p, 't, 'u) collab =
  u2d_load :: "bool \<Rightarrow> 'w \<Rightarrow> string list \<Rightarrow> nat \<times> nat \<Rightarrow> dtype \<Rightarrow> string
    \<Rightarrow> pyexn + ('a \<times> string list \<times> 'w)"
  loadarray :: "'w \<Rightarrow> string list \<Rightarrow> int \<Rightarrow> bool
    \<Rightarrow> pyexn + ('p ModflowParBc \<times> string list \<times> 'w)"
  parameter_bcfill :: "bool \<Rightarrow> 'w \<Rightarrow> nat \<times> nat \<Rightarrow> (string \<times> string) list
    \<Rightarrow> 'p ModflowParBc option \<Rightarrow> pyexn + ('a \<times> 'w)"
  transient2d :: "bool \<Rightarrow> 'w \<Rightarrow> nat \<Rightarrow> nat \<times> nat \<Rightarrow> dtype \<Rightarrow> 'a t2d_value \<Rightarrow> string
    \<Rightarrow> pyexn + ('t \<times> 'w \<times> nat)"
  util_2d :: "bool \<Rightarrow> 'w \<Rightarrow> nat \<Rightarrow> nat \<times> nat \<Rightarrow> dtype \<Rightarrow> 'a pyobj \<Rightarrow> string
    \<Rightarrow> pyexn + ('u \<times> 'w \<times> nat)"
  get_kper_entry :: "'t \<Rightarrow> nat \<Rightarrow> int \<times> string"

record model =
  verbose :: bool
  nrow_ncol_nlay_nper :: "nat \<times> nat \<times> nat \<times> nat"
  version_type :: string

text \<open>What every load carries beside its local variables: the file handle \<open>fh\<close>, the
  state of the collaborators, what was printed, and the next free object identity. The
  state of a load is this record paired with the record of the local variables.\<close>

record 'w loader =
  fh :: "string list"
  world :: 'w
  stdout :: "string list"
  next_id :: nat

definition print :: "string \<Rightarrow> 'w loader \<Rightarrow> 'w loader" where
  "print msg s = s\<lparr>stdout := stdout s @ [msg]\<rparr>"

text \<open>\<^verbatim>\<open>for i in xs: body\<close>, stopping at the first exception.\<close>

fun for_each :: "('i \<Rightarrow> 's \<Rightarrow> pyexn + 's) \<Rightarrow> 'i list \<Rightarrow> 's \<Rightarrow> pyexn + 's" where
  "for_each body [] s = Inr s"
| "for_each body (i # xs) s =
     (case body i s of Inl e \<Rightarrow> Inl e | Inr s' \<Rightarrow> for_each body xs s')"

text \<open>The header loop \<^verbatim>\<open>while True: line = f.readline(); if line[0] != '#': break\<close>. At the
  end of the file \<^verbatim>\<open>line\<close> is empty and \<^verbatim>\<open>line[0]\<close> raises.\<close>

fun skip_comments :: "string list \<Rightarrow> pyexn + (string \<times> string list)" where
  "skip_comments [] = Inl IndexError"
| "skip_comments (l # ls) =
     (case l of
        [] \<Rightarrow> Inl IndexError
      | c # _ \<Rightarrow> if c \<noteq> CHR ''#'' then Inr (l, ls) else skip_comments ls)"

text \<open>
  \<^verbatim>\<open>t = Util2d.load(f, model, (nrow, ncol), dtype, name, ext_unit_dict)\<close>. The names \<^verbatim>\<open>nrow\<close>
  and \<^verbatim>\<open>ncol\<close> are assigned only under \<^verbatim>\<open>if nper is None\<close>: when the caller passes \<^verbatim>\<open>nper\<close>,
  building the tuple raises \<^verbatim>\<open>UnboundLocalError\<close>. \<open>shape\<close> is \<open>None\<close> then.
\<close>

definition load_u2d ::
  "('a, 'w, 'p, 't, 'u) collab \<Rightarrow> bool \<Rightarrow> (nat \<times> nat) option \<Rightarrow> dtype \<Rightarrow> string
    \<Rightarrow> 'w loader \<Rightarrow> pyexn + ('a pyobj \<times> 'w loader)" where
  "load_u2d C vb shape dt name s =
     (case shape of
        None \<Rightarrow> Inl UnboundLocalError
      | Some sh \<Rightarrow>
          (case u2d_load C vb (world s) (fh s) sh dt name of
             Inl e \<Rightarrow> Inl e
           | Inr (a, f', w') \<Rightarrow>
               Inr ((next_id s, Array a),
                    s\<lparr>fh := f', world := w', next_id := Suc (next_id s)\<rparr>)))"

definition stress_period_msg :: "string \<Rightarrow> nat \<Rightarrow> string" where
  "stress_period_msg name iper =
     ''   loading '' @ name @ '' stress period '' @ fmt_d 3 (int iper + 1) @ ''...''"

text \<open>
  \<^verbatim>\<open>if code >= 0: [print(...)]; t = Util2d.load(...); current = t\<close>, returning the new value
  of \<^verbatim>\<open>current\<close>: the object just read, or the object \<^verbatim>\<open>current\<close> already refers to. \<open>pr\<close>
  tells whether the progress line is printed.
\<close>

definition load_current ::
  "('a, 'w, 'p, 't, 'u) collab \<Rightarrow> bool \<Rightarrow> bool \<Rightarrow> (nat \<times> nat) option \<Rightarrow> dtype \<Rightarrow> string \<Rightarrow> nat
    \<Rightarrow> int \<Rightarrow> 'a pyobj \<Rightarrow> 'w loader \<Rightarrow> pyexn + ('a pyobj \<times> 'w loader)" where
  "load_current C pr vb shape dt name iper code current s =
     (if code \<ge> 0
      then load_u2d C vb shape dt name (if pr then print (stress_period_msg name iper) s else s)
      else Inr (current, s))"

section \<open>The recharge package (\<^verbatim>\<open>mfrch.py\<close>)\<close>

text \<open>
  The record keeps, for \<^verbatim>\<open>rech\<close> and \<^verbatim>\<open>irch\<close>, the list of the \<^verbatim>\<open>util_2d\<close> objects the
  constructor builds, one from each element of the list it is given (the loader passes
  lists, so the constructor is modelled on lists).
\<close>

record 'u ModflowRch = package +
  nrchop :: int
  irchcb :: int
  rech :: "'u list"
  irch :: "'u list"

text \<open>\<^verbatim>\<open>for i, a in enumerate(xs): r = util_2d(model, (nrow, ncol), dtype, a, name=prefix +
  str(i+1)); self.xs = self.xs + [r]\<close>, from index \<open>i\<close> on; \<open>wn\<close> is the state of the
  collaborators and the next free object identity. The first exception ends the
  construction.\<close>

fun util_2d_list ::
  "('a, 'w, 'p, 't, 'u) collab \<Rightarrow> bool \<Rightarrow> nat \<times> nat \<Rightarrow> dtype \<Rightarrow> string \<Rightarrow> nat
    \<Rightarrow> 'a pyobj list \<Rightarrow> 'w \<times> nat \<Rightarrow> pyexn + ('u list \<times> 'w \<times> nat)" where
  "util_2d_list C vb sh dt prefix i [] wn = Inr ([], wn)"
| "util_2d_list C vb sh dt prefix i (a # xs) wn =
     (case util_2d C vb (fst wn) (snd wn) sh dt a (prefix @ str_int (int i + 1)) of
        Inl e \<Rightarrow> Inl e
      | Inr (r, wn1) \<Rightarrow>
          (case util_2d_list C vb sh dt prefix (Suc i) xs wn1 of
             Inl e \<Rightarrow> Inl e
           | Inr (rs, wn2) \<Rightarrow> Inr (r # rs, wn2)))"

text \<open>\<^verbatim>\<open>ModflowRch(model, nrchop, irchcb, rech, irch)\<close> with \<^verbatim>\<open>rech\<close> and \<^verbatim>\<open>irch\<close> lists: the
  record, or the exception of the first \<^verbatim>\<open>util_2d\<close> that raises. The grid shape is the
  model's.\<close>

definition ModflowRch_init ::
  "('a, 'w, 'p, 't, 'u) collab \<Rightarrow> model \<Rightarrow> int \<Rightarrow> int \<Rightarrow> 'a pyobj list \<Rightarrow> 'a pyobj list
    \<Rightarrow> 'w \<times> nat \<Rightarrow> pyexn + ('u ModflowRch \<times> 'w \<times> nat)" where
  "ModflowRch_init C m nrchop' irchcb' rech' irch' wn =
     (case nrow_ncol_nlay_nper m of (nrow, ncol, nlay, nper) \<Rightarrow>
        (case util_2d_list C (verbose m) (nrow, ncol) NpFloat32 ''rech_'' 0 rech' wn of
           Inl e \<Rightarrow> Inl e
         | Inr (rs, wn1) \<Rightarrow>
             (case util_2d_list C (verbose m) (nrow, ncol) NpInt ''irech_'' 0 irch' wn1 of
                Inl e \<Rightarrow> Inl e
              | Inr (irs, wn2) \<Rightarrow>
                  Inr (\<lparr> heading = ''# RCH for MODFLOW, generated by Flopy.'',
                         url = ''rch.htm'',
                         extension = ''rch'',
                         unitnumber = 19,
                         nrchop = nrchop',
                         irchcb = irchcb',
                         rech = rs,
                         irch = irs \<rparr>, wn2))))"

text \<open>The local variables of \<^verbatim>\<open>ModflowRch.load\<close> that the loop over the stress periods
  changes (\<open>rech_l\<close> and \<open>irch_l\<close> are the lists \<^verbatim>\<open>rech\<close> and \<^verbatim>\<open>irch\<close>).\<close>

record 'a rch_locals =
  rech_l :: "'a pyobj list"
  irch_l :: "'a pyobj list"
  current_rech :: "'a pyobj"
  current_irch :: "'a pyobj"

text \<open>Data set 0 and 1 of the recharge file: the comment lines and an optional
  \<^verbatim>\<open>PARAMETER\<close> line, asserted to declare no parameter. The result is the line of data set 2
  and the rest of the file.\<close>

definition rch_dataset2 :: "string list \<Rightarrow> pyexn + (string \<times> string list)" where
  "rch_dataset2 f0 =
     (case skip_comments f0 of
        Inl e \<Rightarrow> Inl e
      | Inr (line0, f1) \<Rightarrow>
          if contains ''parameter'' (lower line0)
          then (case int_at (split (strip line0)) 1 of
                  Inl e \<Rightarrow> Inl e
                | Inr v \<Rightarrow> if v = 0 then Inr (readline f1) else Inl AssertionError)
          else Inr (line0, f1))"

text \<open>Data set 2, \<^verbatim>\<open>NRCHOP IRCHCB\<close>: \<^verbatim>\<open>irchcb = 0\<close>, then \<^verbatim>\<open>try: if int(t[1]) != 0: irchcb = 53\<close>
  with every exception passed over.\<close>

definition rch_header :: "string list \<Rightarrow> pyexn + (int \<times> int \<times> string list)" where
  "rch_header f0 =
     (case rch_dataset2 f0 of
        Inl e \<Rightarrow> Inl e
      | Inr (line, f2) \<Rightarrow>
          (let t = split (strip line) in
           case int_at t 0 of
             Inl e \<Rightarrow> Inl e
           | Inr nrchop' \<Rightarrow>
               Inr (nrchop',
                    (case int_at t 1 of
                       Inl _ \<Rightarrow> 0
                     | Inr v \<Rightarrow> if v \<noteq> 0 then 53 else 0),
                    f2)))"

text \<open>The control codes of one stress period: \<^verbatim>\<open>inrech\<close>, and \<^verbatim>\<open>inirch\<close> when
  \<^verbatim>\<open>nrchop == 2\<close> (the name is unbound otherwise, and not read).\<close>

definition rch_control :: "int \<Rightarrow> string \<Rightarrow> pyexn + (int \<times> int option)" where
  "rch_control nrchop' line =
     (let t = split (strip line) in
      case int_at t 0 of
        Inl e \<Rightarrow> Inl e
      | Inr inrech \<Rightarrow>
          if nrchop' = 2
          then (case int_at t 1 of Inl e \<Rightarrow> Inl e | Inr inirch \<Rightarrow> Inr (inrech, Some inirch))
          else Inr (inrech, None))"

definition rch_step ::
  "('a, 'w, 'p, 't, 'u) collab \<Rightarrow> bool \<Rightarrow> (nat \<times> nat) option \<Rightarrow> int \<Rightarrow> nat
    \<Rightarrow> 'w loader \<times> 'a rch_locals \<Rightarrow> pyexn + ('w loader \<times> 'a rch_locals)" where
  "rch_step C vb shape nrchop' iper s0 =
     (let (line, f1) = readline (fh (fst s0)); io1 = (fst s0)\<lparr>fh := f1\<rparr>; v0 = snd s0 in
      case rch_control nrchop' line of
        Inl e \<Rightarrow> Inl e
      | Inr (inrech, inirch) \<Rightarrow>
          (case load_current C True vb shape NpFloat32 ''rech'' iper inrech
                  (current_rech v0) io1 of
             Inl e \<Rightarrow> Inl e
           | Inr (t, io2) \<Rightarrow>
               (let v1 = v0\<lparr>current_rech := t, rech_l := rech_l v0 @ [t]\<rparr> in
                if nrchop' = 2
                then (case load_current C True vb shape NpInt ''irch'' iper (the inirch)
                             (current_irch v1) io2 of
                        Inl e \<Rightarrow> Inl e
                      | Inr (t', io3) \<Rightarrow>
                          Inr (io3, v1\<lparr>current_irch := t', irch_l := irch_l v1 @ [t']\<rparr>))
                else Inr (io2, v1))))"

text \<open>The state before the loop: \<^verbatim>\<open>current_rech = []\<close> and \<^verbatim>\<open>current_irch = []\<close> are two
  new (empty) list objects.\<close>

definition rch_init_locals :: "string list \<Rightarrow> 'w \<Rightarrow> 'w loader \<times> 'a rch_locals" where
  "rch_init_locals f w =
     (\<lparr> fh = f, world = w, stdout = [], next_id = 2 \<rparr>,
      \<lparr> rech_l = [], irch_l = [], current_rech = (0, EmptyList),
        current_irch = (1, EmptyList) \<rparr>)"

text \<open>\<^verbatim>\<open>if nper is None: nrow, ncol, nlay, nper = model.get_nrow_ncol_nlay_nper()\<close>: the shape
  (when bound) and the number of stress periods.\<close>

definition shape_nper :: "model \<Rightarrow> nat option \<Rightarrow> (nat \<times> nat) option \<times> nat" where
  "shape_nper m nper_arg =
     (case nper_arg of
        None \<Rightarrow> (case nrow_ncol_nlay_nper m of
                   (nrow, ncol, nlay, nper) \<Rightarrow> (Some (nrow, ncol), nper))
      | Some n \<Rightarrow> (None, n))"

text \<open>The loop over the stress periods \<open>ks\<close>, from the state before the first of them.\<close>

definition rch_loop ::
  "('a, 'w, 'p, 't, 'u) collab \<Rightarrow> model \<Rightarrow> nat option \<Rightarrow> int \<Rightarrow> nat list
    \<Rightarrow> 'w loader \<times> 'a rch_locals \<Rightarrow> pyexn + ('w loader \<times> 'a rch_locals)" where
  "rch_loop C m nper_arg nrchop' ks s =
     for_each (rch_step C (verbose m) (fst (shape_nper m nper_arg)) nrchop') ks s"

text \<open>\<^verbatim>\<open>ModflowRch.load\<close> up to the call of the constructor: the option code, the budget
  flag and the state after the loop, whose lists \<open>rech_l\<close> and \<open>irch_l\<close> are the arguments
  \<^verbatim>\<open>rech\<close> and \<^verbatim>\<open>irch\<close> of the constructor.\<close>

definition rch_read ::
  "('a, 'w, 'p, 't, 'u) collab \<Rightarrow> string list \<Rightarrow> model \<Rightarrow> 'w \<Rightarrow> nat option
    \<Rightarrow> pyexn + (int \<times> int \<times> 'w loader \<times> 'a rch_locals)" where
  "rch_read C f m w nper_arg =
     (case rch_header f of
        Inl e \<Rightarrow> Inl e
      | Inr (nrchop', irchcb', f2) \<Rightarrow>
          (case rch_loop C m nper_arg nrchop' [0..<snd (shape_nper m nper_arg)]
                  (rch_init_locals f2 w) of
             Inl e \<Rightarrow> Inl e
           | Inr s \<Rightarrow> Inr (nrchop', irchcb', s)))"

text \<open>\<^verbatim>\<open>ModflowRch.load(f, model, nper, ext_unit_dict)\<close>: the package record the constructor
  returns, with the final state of the file handle, the collaborators and the output;
  an exception of the constructor is an exception of the load.\<close>

definition rch_load ::
  "('a, 'w, 'p, 't, 'u) collab \<Rightarrow> string list \<Rightarrow> model \<Rightarrow> 'w \<Rightarrow> nat option
    \<Rightarrow> pyexn + ('u ModflowRch \<times> 'w loader \<times> 'a rch_locals)" where
  "rch_load C f m w nper_arg =
     (case rch_read C f m w nper_arg of
        Inl e \<Rightarrow> Inl e
      | Inr (nrchop', irchcb', s) \<Rightarrow>
          (case ModflowRch_init C m nrchop' irchcb' (rech_l (snd s)) (irch_l (snd s))
                  (world (fst s), next_id (fst s)) of
             Inl e \<Rightarrow> Inl e
           | Inr (R, wn) \<Rightarrow>
               Inr (R, (fst s)\<lparr>world := fst wn, next_id := snd wn\<rparr>, snd s)))"

section \<open>The evapotranspiration package (\<^verbatim>\<open>mfevt.py\<close>)\<close>

text \<open>
  The record keeps, for each of \<^verbatim>\<open>surf\<close>, \<^verbatim>\<open>evtr\<close>, \<^verbatim>\<open>exdp\<close> and \<^verbatim>\<open>ievt\<close>, the \<^verbatim>\<open>Transient2d\<close>
  object the constructor builds from the value it is given. The heading is built from
  the package name \<^verbatim>\<open>EVT\<close> and the version string of the model. A unit number \<^verbatim>\<open>None\<close>
  becomes the default unit 22.
\<close>

record 't ModflowEvt = package +
  nevtop :: int
  ipakcb :: int
  external :: bool
  surf :: 't
  evtr :: 't
  exdp :: 't
  ievt :: 't

text \<open>\<^verbatim>\<open>ModflowEvt(model, nevtop, ipakcb, surf, evtr, exdp, ievt, unitnumber=...)\<close>: the four
  \<^verbatim>\<open>Transient2d\<close> objects are built in the order \<^verbatim>\<open>surf\<close>, \<^verbatim>\<open>evtr\<close> (under the name \<^verbatim>\<open>etvr\<close>),
  \<^verbatim>\<open>exdp\<close>, \<^verbatim>\<open>ievt\<close>, and the first exception ends the construction. The grid shape is the
  model's; \<open>wn\<close> is the state of the collaborators and the next free object identity.\<close>

definition ModflowEvt_init ::
  "('a, 'w, 'p, 't, 'u) collab \<Rightarrow> model \<Rightarrow> int \<Rightarrow> int option \<Rightarrow> 'a t2d_value \<Rightarrow> 'a t2d_value
    \<Rightarrow> 'a t2d_value \<Rightarrow> 'a t2d_value \<Rightarrow> int option \<Rightarrow> 'w \<times> nat
    \<Rightarrow> pyexn + ('t ModflowEvt \<times> 'w \<times> nat)" where
  "ModflowEvt_init C m nevtop' ipakcb' surf' evtr' exdp' ievt' unitnumber' wn =
     (case nrow_ncol_nlay_nper m of (nrow, ncol, nlay, nper) \<Rightarrow>
      (case transient2d C (verbose m) (fst wn) (snd wn) (nrow, ncol) NpFloat32 surf' ''surf'' of
        Inl e \<Rightarrow> Inl e
      | Inr (t1, wn1) \<Rightarrow>
      (case transient2d C (verbose m) (fst wn1) (snd wn1) (nrow, ncol) NpFloat32 evtr' ''etvr'' of
        Inl e \<Rightarrow> Inl e
      | Inr (t2, wn2) \<Rightarrow>
      (case transient2d C (verbose m) (fst wn2) (snd wn2) (nrow, ncol) NpFloat32 exdp' ''exdp'' of
        Inl e \<Rightarrow> Inl e
      | Inr (t3, wn3) \<Rightarrow>
      (case transient2d C (verbose m) (fst wn3) (snd wn3) (nrow, ncol) NpInt ievt' ''ievt'' of
        Inl e \<Rightarrow> Inl e
      | Inr (t4, wn4) \<Rightarrow>
          Inr (\<lparr> heading = ''# '' @ ''EVT'' @ '' package for '' @ '' '' @ version_type m @ '', ''
                            @ ''generated by Flopy.'',
                 url = ''evt.htm'',
                 extension = ''evt'',
                 unitnumber = (case unitnumber' of None \<Rightarrow> 22 | Some u \<Rightarrow> u),
                 nevtop = nevtop',
                 ipakcb = (case ipakcb' of None \<Rightarrow> 0 | Some i \<Rightarrow> i),
                 external = True,
                 surf = t1,
                 evtr = t2,
                 exdp = t3,
                 ievt = t4 \<rparr>, wn4))))))"

subsection \<open>Writing\<close>

definition evt_control_line :: "int \<Rightarrow> int \<Rightarrow> int \<Rightarrow> int \<Rightarrow> nat \<Rightarrow> string" where
  "evt_control_line insurf inevtr inexdp inievt n =
     fmt_d 10 insurf @ fmt_d 10 inevtr @ fmt_d 10 inexdp @ fmt_d 10 inievt @ '' # ''
     @ (''Evapotranspiration  dataset 5 for stress period '' @ str_int (int n + 1)) @ NL"

text \<open>What \<^verbatim>\<open>write_file\<close> writes for stress period \<open>n\<close>.\<close>

definition evt_write_step :: "('a, 'w, 'p, 't, 'u) collab \<Rightarrow> 't ModflowEvt \<Rightarrow> nat \<Rightarrow> string" where
  "evt_write_step C self n =
     (case get_kper_entry C (surf self) n of (insurf, surf') \<Rightarrow>
      case get_kper_entry C (evtr self) n of (inevtr, evtr') \<Rightarrow>
      case get_kper_entry C (exdp self) n of (inexdp, exdp') \<Rightarrow>
      case get_kper_entry C (ievt self) n of (inievt, ievt') \<Rightarrow>
        evt_control_line insurf inevtr inexdp inievt n
        @ (if insurf \<ge> 0 then surf' else [])
        @ (if inevtr \<ge> 0 then evtr' else [])
        @ (if inexdp \<ge> 0 then exdp' else [])
        @ (if nevtop self = 2 \<and> inievt \<ge> 0 then ievt' else []))"

text \<open>The content \<^verbatim>\<open>write_file\<close> writes; the number of stress periods is the model's.\<close>

definition evt_write_file :: "('a, 'w, 'p, 't, 'u) collab \<Rightarrow> model \<Rightarrow> 't ModflowEvt \<Rightarrow> string" where
  "evt_write_file C m self =
     (case nrow_ncol_nlay_nper m of (nrow, ncol, nlay, nper) \<Rightarrow>
        heading self @ NL
        @ fmt_d 10 (nevtop self) @ fmt_d 10 (ipakcb self) @ NL
        @ concat (map (evt_write_step C self) [0..<nper]))"

subsection \<open>Loading\<close>

text \<open>The local variables of \<^verbatim>\<open>ModflowEvt.load\<close> that the loop over the stress periods
  changes (\<open>surf_d\<close>, ... are the dictionaries \<^verbatim>\<open>surf\<close>, ..., in insertion order).\<close>

record 'a evt_locals =
  surf_d :: "(nat \<times> 'a pyobj) list"
  evtr_d :: "(nat \<times> 'a pyobj) list"
  exdp_d :: "(nat \<times> 'a pyobj) list"
  ievt_d :: "(nat \<times> 'a pyobj) list"
  current_surf :: "'a pyobj"
  current_evtr :: "'a pyobj"
  current_exdp :: "'a pyobj"
  current_ievt :: "'a pyobj"

text \<open>Data set 0 and 1 of the evapotranspiration file: the comment lines and an optional
  \<^verbatim>\<open>PARAMETER\<close> line. The result is \<^verbatim>\<open>npar\<close>, the line of data set 2, the rest of the file
  and what was printed.\<close>

definition evt_dataset2 ::
  "bool \<Rightarrow> string list \<Rightarrow> pyexn + (int \<times> string \<times> string list \<times> string list)" where
  "evt_dataset2 vb f0 =
     (case skip_comments f0 of
        Inl e \<Rightarrow> Inl e
      | Inr (line0, f1) \<Rightarrow>
          if contains ''parameter'' (lower line0)
          then (case int_at (split (strip line0)) 1 of
                  Inl e \<Rightarrow> Inl e
                | Inr npar \<Rightarrow>
                    Inr (npar, fst (readline f1), snd (readline f1),
                         if npar > 0 \<and> vb
                         then [''  Parameters detected. Number of parameters =  ''
                               @ str_int npar]
                         else []))
          else Inr (0, line0, f1, []))"

text \<open>Data set 2 (\<^verbatim>\<open>NEVTOP IPAKCB\<close>) and the parameter data of data set 3 and 4.\<close>

definition evt_header ::
  "('a, 'w, 'p, 't, 'u) collab \<Rightarrow> bool \<Rightarrow> string list \<Rightarrow> 'w
    \<Rightarrow> pyexn + (int \<times> int \<times> int \<times> 'p ModflowParBc option \<times> 'w loader)" where
  "evt_header C vb f0 w =
     (case evt_dataset2 vb f0 of
        Inl e \<Rightarrow> Inl e
      | Inr (npar, line, f2, out) \<Rightarrow>
          (let t = split (strip line) in
           case int_at t 0 of
             Inl e \<Rightarrow> Inl e
           | Inr nevtop' \<Rightarrow>
               (case int_at t 1 of
                  Inl e \<Rightarrow> Inl e
                | Inr ipakcb' \<Rightarrow>
                    if npar > 0
                    then (case loadarray C w f2 npar vb of
                            Inl e \<Rightarrow> Inl e
                          | Inr (pp, f3, w') \<Rightarrow>
                              Inr (npar, nevtop', ipakcb', Some pp,
                                   \<lparr>fh = f3, world = w',
                                    stdout = (if vb then [''loading evt package file...'' @ NL]
                                              else []) @ out,
                                    next_id = 4\<rparr>))
                    else Inr (npar, nevtop', ipakcb', None,
                              \<lparr>fh = f2, world = w,
                               stdout = (if vb then [''loading evt package file...'' @ NL]
                                         else []) @ out,
                               next_id = 4\<rparr>))))"

text \<open>The control codes of one stress period: \<^verbatim>\<open>insurf\<close>, \<^verbatim>\<open>inevtr\<close>, \<^verbatim>\<open>inexdp\<close>, and \<^verbatim>\<open>inievt\<close>
  when \<^verbatim>\<open>nevtop == 2\<close> (the name is unbound otherwise, and not read).\<close>

definition evt_control :: "int \<Rightarrow> string \<Rightarrow> pyexn + (int \<times> int \<times> int \<times> int option)" where
  "evt_control nevtop' line =
     (let t = split (strip line) in
      case int_at t 0 of
        Inl e \<Rightarrow> Inl e
      | Inr insurf \<Rightarrow>
          (case int_at t 1 of
             Inl e \<Rightarrow> Inl e
           | Inr inevtr \<Rightarrow>
               (case int_at t 2 of
                  Inl e \<Rightarrow> Inl e
                | Inr inexdp \<Rightarrow>
                    if nevtop' = 2
                    then (case int_at t 3 of
                            Inl e \<Rightarrow> Inl e
                          | Inr inievt \<Rightarrow> Inr (insurf, inevtr, inexdp, Some inievt))
                    else Inr (insurf, inevtr, inexdp, None))))"

text \<open>
  The instance of a parameter: \<^verbatim>\<open>try: c = t[1].lower(); instance_dict =
  pak_parms.bc_parms[pname][1]; iname = c if c in instance_dict else 'static'\<close>, and
  \<^verbatim>\<open>except: iname = 'static'\<close> for a missing second token, a missing parameter table or an
  unknown parameter name.
\<close>

definition instance_name :: "'p ModflowParBc option \<Rightarrow> string \<Rightarrow> string list \<Rightarrow> string" where
  "instance_name pak_parms pname t =
     (if length t > 1
      then (case pak_parms of
              None \<Rightarrow> ''static''
            | Some pp \<Rightarrow>
                (case bc_parms pp pname of
                   None \<Rightarrow> ''static''
                 | Some (pinfo, instance_dict) \<Rightarrow>
                     if instance_dict (lower (t ! 1)) \<noteq> None then lower (t ! 1)
                     else ''static''))
      else ''static'')"

text \<open>The name of a parameter: \<^verbatim>\<open>c = t[0].lower(); if len(c) > 10: c = c[0:10]; pname = c\<close>
  (on a line with a first token).\<close>

definition parameter_name :: "string list \<Rightarrow> string" where
  "parameter_name t = (let c = lower (t ! 0) in if length c > 10 then take 10 c else c)"

text \<open>One pass of \<^verbatim>\<open>for ipar in range(inevtr)\<close>, on the file handle and \<^verbatim>\<open>parm_dict\<close> (a
  dictionary in insertion order). A line without a token raises at \<^verbatim>\<open>t[0]\<close>.\<close>

definition read_parname ::
  "'p ModflowParBc option \<Rightarrow> nat \<Rightarrow> string list \<times> (string \<times> string) list
    \<Rightarrow> pyexn + (string list \<times> (string \<times> string) list)" where
  "read_parname pak_parms ipar fp =
     (let (line, f1) = readline (fst fp); t = split (strip line) in
      if t = [] then Inl IndexError
      else Inr (f1, AList.update (parameter_name t)
                      (instance_name pak_parms (parameter_name t) t) (snd fp)))"

text \<open>The parametric branch for \<^verbatim>\<open>evtr\<close>: read \<^verbatim>\<open>inevtr\<close> parameter names, then
  \<^verbatim>\<open>parameter_bcfill\<close>.\<close>

definition load_parametric ::
  "('a, 'w, 'p, 't, 'u) collab \<Rightarrow> bool \<Rightarrow> (nat \<times> nat) option \<Rightarrow> 'p ModflowParBc option \<Rightarrow> int
    \<Rightarrow> 'w loader \<Rightarrow> pyexn + ('a pyobj \<times> 'w loader)" where
  "load_parametric C vb shape pak_parms inevtr s =
     (case for_each (read_parname pak_parms) [0..<nat inevtr] (fh s, []) of
        Inl e \<Rightarrow> Inl e
      | Inr (f', parm_dict) \<Rightarrow>
          (case shape of
             None \<Rightarrow> Inl UnboundLocalError
           | Some sh \<Rightarrow>
               (case parameter_bcfill C vb (world s) sh parm_dict pak_parms of
                  Inl e \<Rightarrow> Inl e
                | Inr (a, w') \<Rightarrow>
                    Inr ((next_id s, Array a),
                         s\<lparr>fh := f', world := w', next_id := Suc (next_id s)\<rparr>))))"

definition evt_step ::
  "('a, 'w, 'p, 't, 'u) collab \<Rightarrow> bool \<Rightarrow> (nat \<times> nat) option \<Rightarrow> int \<Rightarrow> int
    \<Rightarrow> 'p ModflowParBc option \<Rightarrow> nat \<Rightarrow> 'w loader \<times> 'a evt_locals
    \<Rightarrow> pyexn + ('w loader \<times> 'a evt_locals)" where
  "evt_step C vb shape nevtop' npar pak_parms iper s0 =
     (let (line, f1) = readline (fh (fst s0)); io1 = (fst s0)\<lparr>fh := f1\<rparr>; v0 = snd s0 in
      case evt_control nevtop' line of
        Inl e \<Rightarrow> Inl e
      | Inr (insurf, inevtr, inexdp, inievt) \<Rightarrow>
      (case load_current C vb vb shape NpFloat32 ''surf'' iper insurf (current_surf v0) io1 of
        Inl e \<Rightarrow> Inl e
      | Inr (t1, io2) \<Rightarrow>
      (let v1 = v0\<lparr>current_surf := t1, surf_d := AList.update iper t1 (surf_d v0)\<rparr> in
       case (if inevtr \<ge> 0 \<and> npar \<noteq> 0 then load_parametric C vb shape pak_parms inevtr io2
             else load_current C vb vb shape NpFloat32 ''evtr'' iper inevtr
                    (current_evtr v1) io2) of
        Inl e \<Rightarrow> Inl e
      | Inr (t2, io3) \<Rightarrow>
      (let v2 = v1\<lparr>current_evtr := t2, evtr_d := AList.update iper t2 (evtr_d v1)\<rparr> in
       case load_current C vb vb shape NpFloat32 ''exdp'' iper inexdp (current_exdp v2) io3 of
        Inl e \<Rightarrow> Inl e
      | Inr (t3, io4) \<Rightarrow>
      (let v3 = v2\<lparr>current_exdp := t3, exdp_d := AList.update iper t3 (exdp_d v2)\<rparr> in
       if nevtop' = 2
       then (case load_current C vb vb shape NpInt ''ievt'' iper (the inievt)
                    (current_ievt v3) io4 of
               Inl e \<Rightarrow> Inl e
             | Inr (t4, io5) \<Rightarrow>
                 Inr (io5,
                      v3\<lparr>current_ievt := t4, ievt_d := AList.update iper t4 (ievt_d v3)\<rparr>))
       else Inr (io4, v3))))))"

text \<open>The state before the loop: four empty dictionaries, and four new (empty) list
  objects for \<^verbatim>\<open>current_surf\<close>, \<^verbatim>\<open>current_evtr\<close>, \<^verbatim>\<open>current_exdp\<close> and \<^verbatim>\<open>current_ievt\<close>.\<close>

definition evt_init_locals :: "'w loader \<Rightarrow> 'w loader \<times> 'a evt_locals" where
  "evt_init_locals l =
     (l,
      \<lparr> surf_d = [], evtr_d = [], exdp_d = [], ievt_d = [],
        current_surf = (0, EmptyList), current_evtr = (1, EmptyList),
        current_exdp = (2, EmptyList), current_ievt = (3, EmptyList) \<rparr>)"

text \<open>\<^verbatim>\<open>if surf: args["surf"] = surf\<close>: an empty dictionary leaves the constructor's default.\<close>

definition kwarg :: "(nat \<times> 'a pyobj) list \<Rightarrow> 'a t2d_value" where
  "kwarg d = (if d = [] then Default else PerStep d)"

text \<open>The loop over the stress periods \<open>ks\<close>, from the state before the first of them.\<close>

definition evt_loop ::
  "('a, 'w, 'p, 't, 'u) collab \<Rightarrow> model \<Rightarrow> nat option \<Rightarrow> int \<Rightarrow> int \<Rightarrow> 'p ModflowParBc option
    \<Rightarrow> nat list \<Rightarrow> 'w loader \<times> 'a evt_locals \<Rightarrow> pyexn + ('w loader \<times> 'a evt_locals)" where
  "evt_loop C m nper_arg nevtop' npar pak_parms ks s =
     for_each (evt_step C (verbose m) (fst (shape_nper m nper_arg)) nevtop' npar pak_parms)
       ks s"

text \<open>\<^verbatim>\<open>ModflowEvt.load\<close> up to the call of the constructor: the option code, the budget
  flag and the state after the loop, whose dictionaries \<open>surf_d\<close>, \<open>evtr_d\<close>, \<open>exdp_d\<close> and
  \<open>ievt_d\<close> are the arguments of the constructor (when they are not empty).\<close>

definition evt_read ::
  "('a, 'w, 'p, 't, 'u) collab \<Rightarrow> string list \<Rightarrow> model \<Rightarrow> 'w \<Rightarrow> nat option
    \<Rightarrow> pyexn + (int \<times> int \<times> 'w loader \<times> 'a evt_locals)" where
  "evt_read C f m w nper_arg =
     (case evt_header C (verbose m) f w of
        Inl e \<Rightarrow> Inl e
      | Inr (npar, nevtop', ipakcb', pak_parms, l) \<Rightarrow>
          (case evt_loop C m nper_arg nevtop' npar pak_parms
                  [0..<snd (shape_nper m nper_arg)] (evt_init_locals l) of
             Inl e \<Rightarrow> Inl e
           | Inr s \<Rightarrow> Inr (nevtop', ipakcb', s)))"

text \<open>
  \<^verbatim>\<open>ModflowEvt.load(f, model, nper, ext_unit_dict)\<close>: the package record the constructor
  returns, with the final state of the file handle, the collaborators and the output; an
  exception of the constructor is an exception of the load. The unit number that
  \<^verbatim>\<open>model.get_ext_dict_attr\<close> finds when \<^verbatim>\<open>ext_unit_dict\<close> is given is the argument
  \<open>ext_unit\<close> (\<open>None\<close> without \<^verbatim>\<open>ext_unit_dict\<close>); the file names are not modelled.
\<close>

definition evt_load ::
  "('a, 'w, 'p, 't, 'u) collab \<Rightarrow> string list \<Rightarrow> model \<Rightarrow> 'w \<Rightarrow> nat option \<Rightarrow> int option
    \<Rightarrow> pyexn + ('t ModflowEvt \<times> 'w loader \<times> 'a evt_locals)" where
  "evt_load C f m w nper_arg ext_unit =
     (case evt_read C f m w nper_arg of
        Inl e \<Rightarrow> Inl e
      | Inr (nevtop', ipakcb', s) \<Rightarrow>
          (case ModflowEvt_init C m (if nevtop' \<noteq> 0 then nevtop' else 3) (Some ipakcb')
                  (kwarg (surf_d (snd s))) (kwarg (evtr_d (snd s)))
                  (kwarg (exdp_d (snd s))) (kwarg (ievt_d (snd s))) ext_unit
                  (world (fst s), next_id (fst s)) of
             Inl e \<Rightarrow> Inl e
           | Inr (P, wn) \<Rightarrow>
               Inr (P, (fst s)\<lparr>world := fst wn, next_id := snd wn\<rparr>, snd s)))"

section \<open>Vocabulary of the properties\<close>


text \<open>The object that an argument of the package constructor holds for stress period \<open>k\<close>,
  when the argument is a dictionary.\<close>

definition arg_at :: "'a t2d_value \<Rightarrow> nat \<Rightarrow> 'a pyobj option" where
  "arg_at v k = (case v of PerStep d \<Rightarrow> map_of d k | _ \<Rightarrow> None)"

text \<open>The number of numeric fields a control line starts with, and the number of control
  codes the loaders decode in each package mode.\<close>

definition numeric_fields :: "string \<Rightarrow> nat" where
  "numeric_fields line = length (takeWhile (\<lambda>t. py_int t \<noteq> None) (split (strip line)))"

definition evt_ncodes :: "int \<Rightarrow> nat" where
  "evt_ncodes nevtop' = (if nevtop' = 2 then 4 else 3)"

definition rch_ncodes :: "int \<Rightarrow> nat" where
  "rch_ncodes nrchop' = (if nrchop' = 2 then 2 else 1)"

text \<open>
  The control line that a load reads at stress period \<open>k\<close> (with the option code of the
  file), and the control codes it decodes from it: the header is read, the stress periods
  before \<open>k\<close> are loaded, and the next line is the control line. \<open>None\<close> when the load does
  not come that far.
\<close>

definition evt_line_at ::
  "('a, 'w, 'p, 't, 'u) collab \<Rightarrow> string list \<Rightarrow> model \<Rightarrow> 'w \<Rightarrow> nat option \<Rightarrow> nat
    \<Rightarrow> (int \<times> string) option" where
  "evt_line_at C f m w nper_arg k =
     (case evt_header C (verbose m) f w of
        Inl e \<Rightarrow> None
      | Inr (npar, nevtop', ipakcb', pak_parms, l) \<Rightarrow>
          (case evt_loop C m nper_arg nevtop' npar pak_parms [0..<k] (evt_init_locals l) of
             Inl e \<Rightarrow> None
           | Inr s \<Rightarrow> Some (nevtop', fst (readline (fh (fst s))))))"


definition rch_line_at ::
  "('a, 'w, 'p, 't, 'u) collab \<Rightarrow> string list \<Rightarrow> model \<Rightarrow> 'w \<Rightarrow> nat option \<Rightarrow> nat
    \<Rightarrow> (int \<times> string) option" where
  "rch_line_at C f m w nper_arg k =
     (case rch_header f of
        Inl e \<Rightarrow> None
      | Inr (nrchop', irchcb', f2) \<Rightarrow>
          (case rch_loop C m nper_arg nrchop' [0..<k] (rch_init_locals f2 w) of
             Inl e \<Rightarrow> None
           | Inr s \<Rightarrow> Some (nrchop', fst (readline (fh (fst s))))))"


text \<open>The exception a control line with too few numeric fields raises: \<^verbatim>\<open>ValueError\<close>
  from \<^verbatim>\<open>int\<close> when a field that is no number stands where a code is expected,
  \<^verbatim>\<open>IndexError\<close> from \<^verbatim>\<open>t[i]\<close> when the line ends before.\<close>

definition control_error :: "string \<Rightarrow> pyexn" where
  "control_error line =
     (if numeric_fields line < length (split (strip line)) then ValueError else IndexError)"

text \<open>A state of a load without what was printed.\<close>

definition quiet :: "'w loader \<Rightarrow> 'w loader" where
  "quiet s = s\<lparr>stdout := []\<rparr>"

text \<open>The result of a read, of a stress period and of a load, without what was printed.\<close>

definition quiet_read :: "pyexn + ('t \<times> 'w loader) \<Rightarrow> pyexn + ('t \<times> 'w loader)" where
  "quiet_read r = map_sum id (\<lambda>(t, io). (t, quiet io)) r"

definition quiet_state :: "pyexn + ('w loader \<times> 'v) \<Rightarrow> pyexn + ('w loader \<times> 'v)" where
  "quiet_state r = map_sum id (\<lambda>(io, v). (quiet io, v)) r"

definition quiet_load ::
  "pyexn + ('r \<times> 'w loader \<times> 'v) \<Rightarrow> pyexn + ('r \<times> 'w loader \<times> 'v)" where
  "quiet_load r = map_sum id (\<lambda>(P, io, v). (P, quiet io, v)) r"

text \<open>The collaborators receive the model, and with it the verbosity flag. They ignore
  the flag when their results are the same for both of its values.\<close>

definition ignores_verbose :: "('a, 'w, 'p, 't, 'u) collab \<Rightarrow> bool" where
  "ignores_verbose C =
     (u2d_load C True = u2d_load C False
      \<and> (\<forall>w f npar. loadarray C w f npar True = loadarray C w f npar False)
      \<and> parameter_bcfill C True = parameter_bcfill C False
      \<and> transient2d C True = transient2d C False
      \<and> util_2d C True = util_2d C False)"

section \<open>A concrete array codec and parameter table\<close>

text \<open>
  To run the loaders and the writer on concrete files, the collaborators are instantiated
  with a small codec over integer grids (a list of rows).
\<close>

text \<open>Modelled from the spec: the Grid Array Codec (\<^verbatim>\<open>Util2d.load\<close> is not among the source
  files). A grid is one line per row of whitespace-separated fields, or a constant-fill
  record \<^verbatim>\<open>CONSTANT v\<close>; decoding fails with \<^verbatim>\<open>ShapeMismatch\<close> when fields are missing and
  with \<^verbatim>\<open>TypeMismatch\<close> when a field is no integer.\<close>

fun demo_read_rows :: "nat \<Rightarrow> nat \<Rightarrow> string list \<Rightarrow> pyexn + (int list list \<times> string list)" where
  "demo_read_rows 0 ncol f = Inr ([], f)"
| "demo_read_rows (Suc n) ncol [] = Inl (OtherError ''ShapeMismatch'')"
| "demo_read_rows (Suc n) ncol (l # ls) =
     (if length (split l) < ncol then Inl (OtherError ''ShapeMismatch'')
      else if \<not> list_all (\<lambda>x. py_int x \<noteq> None) (take ncol (split l))
      then Inl (OtherError ''TypeMismatch'')
      else (case demo_read_rows n ncol ls of
              Inl e \<Rightarrow> Inl e
            | Inr (rows, f') \<Rightarrow> Inr (map (\<lambda>x. the (py_int x)) (take ncol (split l)) # rows, f')))"

definition demo_u2d_load ::
  "bool \<Rightarrow> unit \<Rightarrow> string list \<Rightarrow> nat \<times> nat \<Rightarrow> dtype \<Rightarrow> string
    \<Rightarrow> pyexn + (int list list \<times> string list \<times> unit)" where
  "demo_u2d_load vb w f sh dt name =
     (case f of
        [] \<Rightarrow> Inl (OtherError ''ShapeMismatch'')
      | l # ls \<Rightarrow>
          if length (split l) = 2 \<and> split l ! 0 = ''CONSTANT''
          then (case py_int (split l ! 1) of
                  None \<Rightarrow> Inl (OtherError ''TypeMismatch'')
                | Some v \<Rightarrow> Inr (replicate (fst sh) (replicate (snd sh) v), ls, w))
          else (case demo_read_rows (fst sh) (snd sh) f of
                  Inl e \<Rightarrow> Inl e
                | Inr (rows, f') \<Rightarrow> Inr (rows, f', w)))"

definition demo_encode :: "int list list \<Rightarrow> string" where
  "demo_encode rows = concat (map (\<lambda>r. concat (map (fmt_d 10) r) @ NL) rows)"

text \<open>Modelled from the spec: the Timeline of a quantity in a package record
  (\<^verbatim>\<open>Transient2d\<close> is not among the source files). The constructor makes the sequence of
  the arrays of the quantity from the value it is given: a dictionary gives, for each of
  its stress periods, an array object of the constructor's own with the contents of the
  entry, and an entry that is the empty list, where no array was ever supplied, is the
  error \<^verbatim>\<open>NoPriorArray\<close>. One value is the array of stress period 0, and so is the default
  of the package constructor (1 for \<^verbatim>\<open>exdp\<close> and \<^verbatim>\<open>ievt\<close>, 0 for \<^verbatim>\<open>surf\<close>, and 0 in place of
  0.001 for \<^verbatim>\<open>evtr\<close>, the grids being integer grids here). A timeline is the list
  of its stress periods, each with its array object.\<close>

fun demo_t2d_entries ::
  "nat \<Rightarrow> (nat \<times> int list list pyobj) list
    \<Rightarrow> pyexn + ((nat \<times> int list list pyobj) list \<times> nat)" where
  "demo_t2d_entries n [] = Inr ([], n)"
| "demo_t2d_entries n ((k, (i, EmptyList)) # d) = Inl (OtherError ''NoPriorArray'')"
| "demo_t2d_entries n ((k, (i, Array a)) # d) =
     (case demo_t2d_entries (Suc n) d of
        Inl e \<Rightarrow> Inl e
      | Inr (es, n') \<Rightarrow> Inr ((k, (n, Array a)) # es, n'))"

definition demo_transient2d ::
  "bool \<Rightarrow> unit \<Rightarrow> nat \<Rightarrow> nat \<times> nat \<Rightarrow> dtype \<Rightarrow> int list list t2d_value \<Rightarrow> string
    \<Rightarrow> pyexn + ((nat \<times> int list list pyobj) list \<times> unit \<times> nat)" where
  "demo_transient2d vb w n sh dt v name =
     (case v of
        Default \<Rightarrow>
          Inr ([(0, (n, Array (replicate (fst sh) (replicate (snd sh)
                    (if name = ''exdp'' \<or> name = ''ievt'' then 1 else 0)))))], w, Suc n)
      | Value a \<Rightarrow> Inr ([(0, (n, Array a))], w, Suc n)
      | PerStep d \<Rightarrow>
          (case demo_t2d_entries n d of
             Inl e \<Rightarrow> Inl e
           | Inr (es, n') \<Rightarrow> Inr (es, w, n')))"

text \<open>Modelled from the spec: the array of one stress period in a package record
  (\<^verbatim>\<open>util_2d\<close> is not among the source files). The constructor takes the array object it is
  given as it is, and the empty list, where no array was ever supplied, is the error
  \<^verbatim>\<open>NoPriorArray\<close>.\<close>

definition demo_util_2d ::
  "bool \<Rightarrow> unit \<Rightarrow> nat \<Rightarrow> nat \<times> nat \<Rightarrow> dtype \<Rightarrow> int list list pyobj \<Rightarrow> string
    \<Rightarrow> pyexn + (int list list pyobj \<times> unit \<times> nat)" where
  "demo_util_2d vb w n sh dt a name =
     (case snd a of
        EmptyList \<Rightarrow> Inl (OtherError ''NoPriorArray'')
      | Array x \<Rightarrow> Inr (a, w, n))"

text \<open>Modelled from the spec: the Stress-Period Timeline on the writing side
  (\<^verbatim>\<open>Transient2d.get_kper_entry\<close> is not among the source files). A stress period with an
  array of its own has control code 1 and the text of the array; any other has code -1
  and no text.\<close>

definition demo_get_kper_entry :: "(nat \<times> int list list pyobj) list \<Rightarrow> nat \<Rightarrow> int \<times> string" where
  "demo_get_kper_entry t n =
     (case map_of t n of
        Some (i, Array a) \<Rightarrow> (1, demo_encode a)
      | Some (i, EmptyList) \<Rightarrow> (- 1, [])
      | None \<Rightarrow> (- 1, []))"

text \<open>Modelled from the spec: the Parameter Table (\<^verbatim>\<open>mfparbc\<close> is not among the source
  files). Each of the \<open>npar\<close> lines is a parameter name, the value of its \<^verbatim>\<open>static\<close>
  instance, and pairs of an instance name and its value. Resolution looks each named
  parameter up (\<^verbatim>\<open>UnknownParameter\<close> when it is missing), takes the value of the named
  instance, and fills the grid with the sum.\<close>

fun demo_instances :: "string list \<Rightarrow> (string \<times> int) list" where
  "demo_instances (n # v # rest) =
     (case py_int v of None \<Rightarrow> demo_instances rest | Some i \<Rightarrow> (lower n, i) # demo_instances rest)"
| "demo_instances rest = []"

fun demo_parameters ::
  "nat \<Rightarrow> string list \<Rightarrow> pyexn + ((string \<times> int \<times> (string \<rightharpoonup> int)) list \<times> string list)" where
  "demo_parameters 0 f = Inr ([], f)"
| "demo_parameters (Suc n) [] = Inl IndexError"
| "demo_parameters (Suc n) (l # ls) =
     (case split l of
        name # v # rest \<Rightarrow>
          (case py_int v of
             None \<Rightarrow> Inl ValueError
           | Some b \<Rightarrow>
               (case demo_parameters n ls of
                  Inl e \<Rightarrow> Inl e
                | Inr (ps, f') \<Rightarrow>
                    Inr ((take 10 (lower name), b,
                          map_of ((''static'', b) # demo_instances rest)) # ps, f')))
      | _ \<Rightarrow> Inl IndexError)"

definition demo_loadarray ::
  "unit \<Rightarrow> string list \<Rightarrow> int \<Rightarrow> bool \<Rightarrow> pyexn + (int ModflowParBc \<times> string list \<times> unit)" where
  "demo_loadarray w f npar vb =
     (case demo_parameters (nat npar) f of
        Inl e \<Rightarrow> Inl e
      | Inr (ps, f') \<Rightarrow> Inr (\<lparr>bc_parms = map_of ps\<rparr>, f', w))"

fun demo_resolve :: "int ModflowParBc \<Rightarrow> (string \<times> string) list \<Rightarrow> pyexn + int" where
  "demo_resolve pp [] = Inr 0"
| "demo_resolve pp ((pname, iname) # rest) =
     (case bc_parms pp pname of
        None \<Rightarrow> Inl (OtherError ''UnknownParameter'')
      | Some (b, instance_dict) \<Rightarrow>
          (case instance_dict iname of
             None \<Rightarrow> Inl KeyError
           | Some v \<Rightarrow>
               (case demo_resolve pp rest of Inl e \<Rightarrow> Inl e | Inr acc \<Rightarrow> Inr (v + acc))))"

definition demo_parameter_bcfill ::
  "bool \<Rightarrow> unit \<Rightarrow> nat \<times> nat \<Rightarrow> (string \<times> string) list \<Rightarrow> int ModflowParBc option
    \<Rightarrow> pyexn + (int list list \<times> unit)" where
  "demo_parameter_bcfill vb w sh parm_dict pak_parms =
     (case pak_parms of
        None \<Rightarrow> Inl (OtherError ''UnknownParameter'')
      | Some pp \<Rightarrow>
          (case demo_resolve pp parm_dict of
             Inl e \<Rightarrow> Inl e
           | Inr acc \<Rightarrow> Inr (replicate (fst sh) (replicate (snd sh) acc), w)))"

definition demo ::
  "(int list list, unit, int, (nat \<times> int list list pyobj) list, int list list pyobj) collab" where
  "demo = \<lparr> u2d_load = demo_u2d_load,
            loadarray = demo_loadarray,
            parameter_bcfill = demo_parameter_bcfill,
            transient2d = demo_transient2d,
            util_2d = demo_util_2d,
            get_kper_entry = demo_get_kper_entry \<rparr>"

text \<open>A model with a grid of one row and two columns, and the number of stress periods
  given.\<close>

definition demo_model :: "bool \<Rightarrow> nat \<Rightarrow> model" where
  "demo_model vb nper =
     \<lparr> verbose = vb, nrow_ncol_nlay_nper = (1, 2, 1, nper), version_type = ''MODFLOW-2005'' \<rparr>"



definition demo_rch_reuse_file :: "string list" where
  "demo_rch_reuse_file =
     [''# RCH'' @ NL, ''         2        40'' @ NL,
      ''         1         1 # period 1'' @ NL,
      ''         5         6'' @ NL, ''         1         2'' @ NL,
      ''        -1        -1 # period 2'' @ NL]"


text \<open>Files whose first control line has fewer codes than the option code asks for.\<close>

definition demo_evt_short_file :: "string list" where
  "demo_evt_short_file =
     [''# EVT'' @ NL, ''         3         0'' @ NL,
      ''         1         1 # period 1'' @ NL,
      ''         5         6'' @ NL]"

definition demo_rch_short_file :: "string list" where
  "demo_rch_short_file =
     [''# RCH'' @ NL, ''         2         0'' @ NL,
      ''         1'' @ NL,
      ''         5         6'' @ NL]"

text \<open>Files with one parameter: the stress period names it with an instance the table
  does not have, and a stress period that declares two parameter names and is followed by one.\<close>

definition demo_evt_par_file :: "string list" where
  "demo_evt_par_file =
     [''# EVT'' @ NL, ''PARAMETER         1'' @ NL, ''         3         0'' @ NL,
      ''ET1 7 summer 9'' @ NL,
      ''        -1         1        -1 # period 1'' @ NL,
      ''ET1 winter'' @ NL]"

definition demo_evt_par_short_file :: "string list" where
  "demo_evt_par_short_file =
     [''# EVT'' @ NL, ''PARAMETER         1'' @ NL, ''         3         0'' @ NL,
      ''ET1 7 summer 9'' @ NL,
      ''        -1         2        -1 # period 1'' @ NL,
      ''ET1 summer'' @ NL]"

text \<open>A loader state on the lines \<open>f\<close>, as it is after the header, and a parameter table
  with one parameter \<^verbatim>\<open>et1\<close> whose instances are \<^verbatim>\<open>static\<close> and \<^verbatim>\<open>summer\<close>.\<close>

definition demo_loader :: "string list \<Rightarrow> unit loader" where
  "demo_loader f = \<lparr>fh = f, world = (), stdout = [], next_id = 4\<rparr>"

definition demo_table :: "int ModflowParBc" where
  "demo_table = \<lparr>bc_parms = map_of [(''et1'', (7, map_of [(''static'', 7), (''summer'', 9)]))]\<rparr>"


section \<open>Lemmas about the loaders\<close>

subsection \<open>Loops and lists\<close>


lemma for_each_append:
  "for_each body (xs @ ys) s =
     (case for_each body xs s of Inl e \<Rightarrow> Inl e | Inr s' \<Rightarrow> for_each body ys s')"
  by (induction xs arbitrary: s) (auto split: sum.splits)

lemma upt_split3: "k < n \<Longrightarrow> [0..<n] = [0..<k] @ k # [Suc k..<n]"
proof -
  assume kn: "k < n"
  have "[0..<n] = [0..<k + (n - k)]" using kn by simp
  also have "\<dots> = [0..<k] @ [k..<k + (n - k)]" by (rule upt_add_eq_append) simp
  also have "[k..<k + (n - k)] = k # [Suc k..<n]" using kn by (simp add: upt_conv_Cons)
  finally show ?thesis .
qed

lemma load_current_neg:
  "code < 0 \<Longrightarrow> load_current C pr vb shape dt name iper code cur io = Inr (cur, io)"
  by (simp add: load_current_def)

subsection \<open>One stress period of the evapotranspiration file\<close>

lemma evt_step_dicts:
  assumes "evt_step C vb shape nevtop' npar pp iper s = Inr s'"
  shows "surf_d (snd s') = AList.update iper (current_surf (snd s')) (surf_d (snd s))"
    and "evtr_d (snd s') = AList.update iper (current_evtr (snd s')) (evtr_d (snd s))"
    and "exdp_d (snd s') = AList.update iper (current_exdp (snd s')) (exdp_d (snd s))"
    and "nevtop' = 2 \<Longrightarrow>
           ievt_d (snd s') = AList.update iper (current_ievt (snd s')) (ievt_d (snd s))"
    and "nevtop' \<noteq> 2 \<Longrightarrow>
           ievt_d (snd s') = ievt_d (snd s) \<and> current_ievt (snd s') = current_ievt (snd s)"
  using assms
  by (auto simp: evt_step_def Let_def split: prod.splits sum.splits if_splits)


lemma evt_control_gate:
  "evt_control nevtop' line = Inr (a, b, c, d) \<Longrightarrow> (d \<noteq> None) = (nevtop' = 2)"
  by (auto simp: evt_control_def Let_def split: sum.splits if_splits)

subsection \<open>The loop of the evapotranspiration file\<close>

lemma evt_loop_Nil [simp]: "evt_loop C m na nevtop' npar pp [] s = Inr s"
  by (simp add: evt_loop_def)

lemma evt_loop_Cons:
  "evt_loop C m na nevtop' npar pp (k # ks) s =
     (case evt_step C (verbose m) (fst (shape_nper m na)) nevtop' npar pp k s of
        Inl e \<Rightarrow> Inl e
      | Inr s' \<Rightarrow> evt_loop C m na nevtop' npar pp ks s')"
  unfolding evt_loop_def by simp

lemma evt_loop_append:
  "evt_loop C m na nevtop' npar pp (xs @ ys) s =
     (case evt_loop C m na nevtop' npar pp xs s of
        Inl e \<Rightarrow> Inl e
      | Inr s' \<Rightarrow> evt_loop C m na nevtop' npar pp ys s')"
  unfolding evt_loop_def by (rule for_each_append)







lemma arg_at_kwarg [simp]: "arg_at (kwarg d) k = map_of d k"
  by (simp add: arg_at_def kwarg_def)




subsection \<open>The recharge file\<close>

lemma rch_step_lists:
  assumes "rch_step C vb shape nrchop' iper s = Inr s'"
  shows "rech_l (snd s') = rech_l (snd s) @ [current_rech (snd s')]"
    and "nrchop' = 2 \<Longrightarrow> irch_l (snd s') = irch_l (snd s) @ [current_irch (snd s')]"
    and "nrchop' \<noteq> 2 \<Longrightarrow>
           irch_l (snd s') = irch_l (snd s) \<and> current_irch (snd s') = current_irch (snd s)"
  using assms
  by (auto simp: rch_step_def Let_def split: prod.splits sum.splits if_splits)


lemma rch_control_gate:
  "rch_control nrchop' line = Inr (a, d) \<Longrightarrow> (d \<noteq> None) = (nrchop' = 2)"
  by (auto simp: rch_control_def Let_def split: sum.splits if_splits)

lemma rch_loop_Nil [simp]: "rch_loop C m na nrchop' [] s = Inr s"
  by (simp add: rch_loop_def)

lemma rch_loop_Cons:
  "rch_loop C m na nrchop' (k # ks) s =
     (case rch_step C (verbose m) (fst (shape_nper m na)) nrchop' k s of
        Inl e \<Rightarrow> Inl e
      | Inr s' \<Rightarrow> rch_loop C m na nrchop' ks s')"
  unfolding rch_loop_def by simp

lemma rch_loop_append:
  "rch_loop C m na nrchop' (xs @ ys) s =
     (case rch_loop C m na nrchop' xs s of
        Inl e \<Rightarrow> Inl e
      | Inr s' \<Rightarrow> rch_loop C m na nrchop' ys s')"
  unfolding rch_loop_def by (rule for_each_append)



lemma rch_read_InrD:
  assumes "rch_read C f m w na = Inr (nrchop', irchcb', sf)"
  shows "\<exists>f2.
           rch_header f = Inr (nrchop', irchcb', f2)
         \<and> rch_loop C m na nrchop' [0..<snd (shape_nper m na)] (rch_init_locals f2 w) = Inr sf"
  using assms by (auto simp: rch_read_def split: sum.splits prod.splits)

lemma ModflowRch_init_InrD:
  assumes "ModflowRch_init C m n i a b wn = Inr (R, wn')"
  shows "nrchop R = n \<and> irchcb R = i"
  using assms by (auto simp: ModflowRch_init_def split: sum.splits prod.splits)

lemma rch_load_InrD:
  assumes "rch_load C f m w na = Inr (R, sf)"
  shows "\<exists>nrchop' irchcb' f2.
           rch_header f = Inr (nrchop', irchcb', f2)
         \<and> nrchop R = nrchop' \<and> irchcb R = irchcb'"
proof -
  from assms obtain nrchop' irchcb' s where
    rd: "rch_read C f m w na = Inr (nrchop', irchcb', s)"
    by (cases "rch_read C f m w na") (auto simp: rch_load_def)
  with assms obtain wn where
    "ModflowRch_init C m nrchop' irchcb' (rech_l (snd s)) (irch_l (snd s))
       (world (fst s), next_id (fst s)) = Inr (R, wn)"
    by (auto simp: rch_load_def split: sum.splits prod.splits)
  from ModflowRch_init_InrD[OF this] rch_read_InrD[OF rd] show ?thesis by blast
qed


subsection \<open>The first stress period\<close>



text \<open>A stress period whose control codes are all negative reads the control line and
  nothing else.\<close>

lemma evt_step_all_negative:
  assumes "evt_control nevtop' (fst (readline (fh (fst s)))) = Inr (insurf, inevtr, inexdp, inievt)"
    and "insurf < 0" "inevtr < 0" "inexdp < 0" "\<forall>c. inievt = Some c \<longrightarrow> c < 0"
  shows "\<exists>v. evt_step C vb shape nevtop' npar pp iper s = Inr ((fst s)\<lparr>fh := snd (readline (fh (fst s)))\<rparr>, v)"
  using assms
  by (auto simp: evt_step_def evt_control_def Let_def load_current_neg
      split: prod.splits sum.splits if_splits)

lemma rch_step_all_negative:
  assumes "rch_control nrchop' (fst (readline (fh (fst s)))) = Inr (inrech, inirch)"
    and "inrech < 0" "\<forall>c. inirch = Some c \<longrightarrow> c < 0"
  shows "\<exists>v. rch_step C vb shape nrchop' iper s = Inr ((fst s)\<lparr>fh := snd (readline (fh (fst s)))\<rparr>, v)"
  using assms
  by (auto simp: rch_step_def rch_control_def Let_def load_current_neg
      split: prod.splits sum.splits if_splits)



subsection \<open>The constructors on a quantity that was never supplied\<close>









subsection \<open>Control lines with too few numeric fields\<close>

lemma int_at_numeric:
  assumes "i < numeric_fields line"
  shows "\<exists>v. int_at (split (strip line)) i = Inr v"
proof -
  let ?t = "split (strip line)"
  let ?P = "\<lambda>x. py_int x \<noteq> None"
  from assms have i: "i < length (takeWhile ?P ?t)" by (simp add: numeric_fields_def)
  then have "takeWhile ?P ?t ! i \<in> set (takeWhile ?P ?t)" by simp
  then have "?P (takeWhile ?P ?t ! i)" by (rule set_takeWhileD[THEN conjunct2])
  moreover have "takeWhile ?P ?t ! i = ?t ! i" using i by (rule takeWhile_nth)
  moreover have "i < length ?t" using i length_takeWhile_le[of ?P ?t] by simp
  ultimately show ?thesis by (auto simp: int_at_def)
qed

lemma int_at_first_bad:
  "int_at (split (strip line)) (numeric_fields line) = Inl (control_error line)"
proof (cases "numeric_fields line < length (split (strip line))")
  case True
  then have "\<not> (py_int (split (strip line) ! numeric_fields line) \<noteq> None)"
    unfolding numeric_fields_def by (rule nth_length_takeWhile)
  with True show ?thesis by (simp add: int_at_def control_error_def)
next
  case False
  then show ?thesis by (simp add: int_at_def control_error_def)
qed

lemma evt_control_malformed:
  assumes "numeric_fields line < evt_ncodes nevtop'"
  shows "evt_control nevtop' line = Inl (control_error line)"
proof -
  let ?n = "numeric_fields line"
  let ?t = "split (strip line)"
  note bad = int_at_first_bad[of line]
  have "?n = 0 \<or> ?n = 1 \<or> ?n = 2 \<or> (?n = 3 \<and> nevtop' = 2)"
  proof (cases "nevtop' = 2")
    case True
    with assms have "?n < 4" by (simp add: evt_ncodes_def)
    with True show ?thesis by arith
  next
    case False
    with assms have "?n < 3" by (simp add: evt_ncodes_def)
    then show ?thesis by arith
  qed
  then show ?thesis
  proof (elim disjE conjE)
    assume n: "?n = 0"
    with bad show ?thesis by (simp add: evt_control_def)
  next
    assume n: "?n = 1"
    with int_at_numeric[of 0 line] obtain v0 where "int_at ?t 0 = Inr v0" by auto
    with bad n show ?thesis by (simp add: evt_control_def)
  next
    assume n: "?n = 2"
    with int_at_numeric[of 0 line] int_at_numeric[of 1 line] obtain v0 v1 where
      "int_at ?t 0 = Inr v0" "int_at ?t 1 = Inr v1" by auto
    with bad n show ?thesis by (simp add: evt_control_def)
  next
    assume n: "?n = 3" and two: "nevtop' = 2"
    with int_at_numeric[of 0 line] int_at_numeric[of 1 line] int_at_numeric[of 2 line]
    obtain v0 v1 v2 where
      "int_at ?t 0 = Inr v0" "int_at ?t 1 = Inr v1" "int_at ?t 2 = Inr v2" by auto
    with bad n two show ?thesis by (simp add: evt_control_def)
  qed
qed

lemma rch_control_malformed:
  assumes "numeric_fields line < rch_ncodes nrchop'"
  shows "rch_control nrchop' line = Inl (control_error line)"
proof -
  let ?n = "numeric_fields line"
  let ?t = "split (strip line)"
  note bad = int_at_first_bad[of line]
  have "?n = 0 \<or> (?n = 1 \<and> nrchop' = 2)"
  proof (cases "nrchop' = 2")
    case True
    with assms have "?n < 2" by (simp add: rch_ncodes_def)
    with True show ?thesis by arith
  next
    case False
    with assms have "?n < 1" by (simp add: rch_ncodes_def)
    then show ?thesis by arith
  qed
  then show ?thesis
  proof (elim disjE conjE)
    assume n: "?n = 0"
    with bad show ?thesis by (simp add: rch_control_def)
  next
    assume n: "?n = 1" and two: "nrchop' = 2"
    with int_at_numeric[of 0 line] obtain v0 where "int_at ?t 0 = Inr v0" by auto
    with bad n two show ?thesis by (simp add: rch_control_def)
  qed
qed

lemma evt_step_control_error:
  "evt_control nevtop' (fst (readline (fh (fst s)))) = Inl e \<Longrightarrow>
     evt_step C vb shape nevtop' npar pp iper s = Inl e"
  by (auto simp: evt_step_def Let_def split: prod.splits)

lemma rch_step_control_error:
  "rch_control nrchop' (fst (readline (fh (fst s)))) = Inl e \<Longrightarrow>
     rch_step C vb shape nrchop' iper s = Inl e"
  by (auto simp: rch_step_def Let_def split: prod.splits)

lemma evt_load_malformed:
  assumes line: "evt_line_at C f m w na k = Some (nevtop', line)"
    and k: "k < snd (shape_nper m na)"
    and few: "numeric_fields line < evt_ncodes nevtop'"
  shows "evt_load C f m w na u = Inl (control_error line)"
proof -
  from line obtain npar ipakcb' pp l s where
    hd: "evt_header C (verbose m) f w = Inr (npar, nevtop', ipakcb', pp, l)"
    and pre: "evt_loop C m na nevtop' npar pp [0..<k] (evt_init_locals l) = Inr s"
    and ln: "fst (readline (fh (fst s))) = line"
    by (auto simp: evt_line_at_def split: sum.splits)
  have "evt_control nevtop' (fst (readline (fh (fst s)))) = Inl (control_error line)"
    unfolding ln by (rule evt_control_malformed[OF few])
  then have "evt_step C (verbose m) (fst (shape_nper m na)) nevtop' npar pp k s =
     Inl (control_error line)"
    by (rule evt_step_control_error)
  with pre have "evt_loop C m na nevtop' npar pp [0..<snd (shape_nper m na)] (evt_init_locals l) =
     Inl (control_error line)"
    by (simp add: upt_split3[OF k] evt_loop_append evt_loop_Cons)
  with hd show ?thesis by (simp add: evt_load_def evt_read_def)
qed

lemma rch_load_malformed:
  assumes line: "rch_line_at C f m w na k = Some (nrchop', line)"
    and k: "k < snd (shape_nper m na)"
    and few: "numeric_fields line < rch_ncodes nrchop'"
  shows "rch_load C f m w na = Inl (control_error line)"
proof -
  from line obtain irchcb' f2 s where
    hd: "rch_header f = Inr (nrchop', irchcb', f2)"
    and pre: "rch_loop C m na nrchop' [0..<k] (rch_init_locals f2 w) = Inr s"
    and ln: "fst (readline (fh (fst s))) = line"
    by (auto simp: rch_line_at_def split: sum.splits)
  have "rch_control nrchop' (fst (readline (fh (fst s)))) = Inl (control_error line)"
    unfolding ln by (rule rch_control_malformed[OF few])
  then have "rch_step C (verbose m) (fst (shape_nper m na)) nrchop' k s =
     Inl (control_error line)"
    by (rule rch_step_control_error)
  with pre have "rch_loop C m na nrchop' [0..<snd (shape_nper m na)] (rch_init_locals f2 w) =
     Inl (control_error line)"
    by (simp add: upt_split3[OF k] rch_loop_append rch_loop_Cons)
  with hd show ?thesis by (simp add: rch_load_def rch_read_def)
qed

subsection \<open>Gated quantities\<close>

lemma int_at_take: "i < n \<Longrightarrow> int_at (take n t) i = int_at t i"
  by (simp add: int_at_def)

lemma evt_control_gated:
  assumes "nevtop' \<noteq> 2" and "take 3 (split (strip l1)) = take 3 (split (strip l2))"
  shows "evt_control nevtop' l1 = evt_control nevtop' l2"
proof -
  have "int_at (split (strip l1)) i = int_at (split (strip l2)) i" if "i < 3" for i
    using int_at_take[OF that, of "split (strip l1)"] int_at_take[OF that, of "split (strip l2)"]
      assms(2) by simp
  from this[of 0] this[of 1] this[of 2] assms(1) show ?thesis
    by (auto simp: evt_control_def Let_def split: sum.splits)
qed

lemma rch_control_gated:
  assumes "nrchop' \<noteq> 2" and "take 1 (split (strip l1)) = take 1 (split (strip l2))"
  shows "rch_control nrchop' l1 = rch_control nrchop' l2"
proof -
  have "int_at (split (strip l1)) 0 = int_at (split (strip l2)) 0"
    using int_at_take[of 0 1 "split (strip l1)"] int_at_take[of 0 1 "split (strip l2)"]
      assms(2) by simp
  with assms(1) show ?thesis
    by (auto simp: rch_control_def Let_def split: sum.splits)
qed

lemma evt_step_gated:
  assumes "nevtop' \<noteq> 2" and "take 3 (split (strip l1)) = take 3 (split (strip l2))"
  shows "evt_step C vb shape nevtop' npar pp iper (io\<lparr>fh := l1 # rest\<rparr>, v)
       = evt_step C vb shape nevtop' npar pp iper (io\<lparr>fh := l2 # rest\<rparr>, v)"
  using evt_control_gated[OF assms]
  by (simp add: evt_step_def readline_def)

lemma rch_step_gated:
  assumes "nrchop' \<noteq> 2" and "take 1 (split (strip l1)) = take 1 (split (strip l2))"
  shows "rch_step C vb shape nrchop' iper (io\<lparr>fh := l1 # rest\<rparr>, v)
       = rch_step C vb shape nrchop' iper (io\<lparr>fh := l2 # rest\<rparr>, v)"
  using rch_control_gated[OF assms]
  by (simp add: rch_step_def readline_def)


subsection \<open>Parameter names\<close>

lemma split_strip_Nil: "split (strip []) = []"
  by (simp add: split_def strip_def)



subsection \<open>Counting parameter names\<close>

lemma read_parname_Nil: "read_parname pp i ([], pd) = Inl IndexError"
  by (simp add: read_parname_def readline_def split_strip_Nil)

lemma read_parname_Cons:
  "read_parname pp i (l # ls, pd) = Inl IndexError
   \<or> (\<exists>pd'. read_parname pp i (l # ls, pd) = Inr (ls, pd'))"
  by (simp add: read_parname_def readline_def Let_def)

lemma read_parnames_consumed:
  "for_each (read_parname pp) xs (f, pd) = Inr (f', pd') \<Longrightarrow>
     length xs \<le> length f \<and> f' = drop (length xs) f"
proof (induction xs arbitrary: f pd)
  case Nil
  then show ?case by simp
next
  case (Cons x xs)
  show ?case
  proof (cases f)
    case Nil
    with Cons.prems show ?thesis by (simp add: read_parname_Nil)
  next
    case (Cons l ls)
    with Cons.prems read_parname_Cons[of pp x l ls pd] obtain pd1 where
      "for_each (read_parname pp) xs (ls, pd1) = Inr (f', pd')"
      by (auto split: sum.splits)
    from Cons.IH[OF this] Cons show ?thesis by simp
  qed
qed

lemma read_parnames_missing:
  "length f < length xs \<Longrightarrow> for_each (read_parname pp) xs (f, pd) = Inl IndexError"
proof (induction xs arbitrary: f pd)
  case Nil
  then show ?case by simp
next
  case (Cons x xs)
  show ?case
  proof (cases f)
    case Nil
    then show ?thesis by (simp add: read_parname_Nil)
  next
    case (Cons l ls)
    with Cons.prems have "length ls < length xs" by simp
    from Cons.IH[OF this] read_parname_Cons[of pp x l ls pd] Cons show ?thesis
      by (auto split: sum.splits)
  qed
qed

lemma load_parametric_consumed:
  assumes "load_parametric C vb shape pp c io = Inr (t, io')"
  shows "nat c \<le> length (fh io) \<and> fh io' = drop (nat c) (fh io)"
proof -
  from assms obtain f' pd where
    r: "for_each (read_parname pp) [0..<nat c] (fh io, []) = Inr (f', pd)" and "fh io' = f'"
    by (auto simp: load_parametric_def split: sum.splits option.splits)
  with read_parnames_consumed[OF r] show ?thesis by simp
qed

lemma load_parametric_missing:
  assumes "length (fh io) < nat c"
  shows "load_parametric C vb shape pp c io = Inl IndexError"
  using read_parnames_missing[of "fh io" "[0..<nat c]" pp "[]"] assms
  by (simp add: load_parametric_def)

lemma evt_step_parametric_missing:
  assumes "evt_control nevtop' line = Inr (a, c, e, d)" and "a < 0" and "0 \<le> c" and "npar \<noteq> 0"
    and "length rest < nat c"
  shows "evt_step C vb shape nevtop' npar pp iper (io\<lparr>fh := line # rest\<rparr>, v) = Inl IndexError"
  using assms load_parametric_missing[of "io\<lparr>fh := rest\<rparr>" c C vb shape pp]
  by (simp add: evt_step_def readline_def load_current_neg)

lemma evt_step_parametric_consumed:
  assumes ctl: "evt_control nevtop' line = Inr (a, c, e, d)" and neg: "a < 0" "e < 0" "\<forall>x. d = Some x \<longrightarrow> x < 0"
    and par: "0 \<le> c" "npar \<noteq> 0"
    and st: "evt_step C vb shape nevtop' npar pp iper (io\<lparr>fh := line # rest\<rparr>, v) = Inr s'"
  shows "nat c \<le> length rest \<and> fh (fst s') = drop (nat c) rest"
proof -
  from st ctl neg par obtain t io' where
    lp: "load_parametric C vb shape pp c (io\<lparr>fh := rest\<rparr>) = Inr (t, io')" and "fh (fst s') = fh io'"
    using evt_control_gate[OF ctl]
    by (auto simp: evt_step_def readline_def load_current_neg Let_def split: sum.splits if_splits)
  with load_parametric_consumed[OF lp] show ?thesis by simp
qed

section \<open>Properties\<close>

text \<open>
  C9. Whatever is passed for \<^verbatim>\<open>output_file_name\<close>, \<^verbatim>\<open>output_file_unit\<close>,
  \<^verbatim>\<open>output_file_header\<close> and \<^verbatim>\<open>output_file_format\<close>, the constructed link package stores
  \<^verbatim>\<open>'mt3d_link.ftl'\<close>, 54, \<^verbatim>\<open>'extended'\<close> and \<^verbatim>\<open>'unformatted'\<close>, and the content written
  by \<^verbatim>\<open>write_file\<close> is the same for any two choices of these arguments.
\<close>

theorem lmt_output_arguments_ignored:
  "output_file_name (ModflowLmt_init n u h f ext un) = ''mt3d_link.ftl''
   \<and> output_file_unit (ModflowLmt_init n u h f ext un) = 54
   \<and> output_file_header (ModflowLmt_init n u h f ext un) = ''extended''
   \<and> output_file_format (ModflowLmt_init n u h f ext un) = ''unformatted''
   \<and> lmt_write_file (ModflowLmt_init n u h f ext un)
       = lmt_write_file (ModflowLmt_init n' u' h' f' ext un)"
  by (simp add: ModflowLmt_init_def lmt_write_file_def)






text \<open>
  C7. When the control line a load reads at a stress period starts with fewer numeric
  fields than the loader decodes in the mode of the file (3, or 4 under option 2, for
  evapotranspiration; 1, or 2 under option 2, for recharge), the load fails while it
  decodes the line and returns no package record. The exception is the one Python raises
  there: \<^verbatim>\<open>ValueError\<close> or \<^verbatim>\<open>IndexError\<close>.
\<close>

theorem short_control_line_fails:
  "(evt_line_at C f m w na k = Some (nevtop', line) \<and> k < snd (shape_nper m na)
      \<and> numeric_fields line < evt_ncodes nevtop' \<longrightarrow>
        evt_load C f m w na u = Inl (control_error line)
      \<and> (control_error line = IndexError \<or> control_error line = ValueError))
   \<and> (rch_line_at C' f' m' w' na' k' = Some (nrchop', line') \<and> k' < snd (shape_nper m' na')
      \<and> numeric_fields line' < rch_ncodes nrchop' \<longrightarrow>
        rch_load C' f' m' w' na' = Inl (control_error line')
      \<and> (control_error line' = IndexError \<or> control_error line' = ValueError))"
  using evt_load_malformed[of C f m w na k nevtop' line u]
    rch_load_malformed[of C' f' m' w' na' k' nrchop' line']
  by (auto simp: control_error_def)

theorem short_control_line_fails_witness:
  "evt_line_at demo demo_evt_short_file (demo_model False 1) () None 0
       = Some (3, ''         1         1 # period 1'' @ NL)
   \<and> numeric_fields (''         1         1 # period 1'' @ NL) = 2
   \<and> evt_load demo demo_evt_short_file (demo_model False 1) () None None = Inl ValueError
   \<and> rch_line_at demo demo_rch_short_file (demo_model False 1) () None 0
       = Some (2, ''         1'' @ NL)
   \<and> numeric_fields (''         1'' @ NL) = 1
   \<and> rch_load demo demo_rch_short_file (demo_model False 1) () None = Inl IndexError"
proof -
  have e1: "evt_line_at demo demo_evt_short_file (demo_model False 1) () None 0
       = Some (3, ''         1         1 # period 1'' @ NL)" by code_simp
  have e2: "numeric_fields (''         1         1 # period 1'' @ NL) = 2" by code_simp
  have e3: "numeric_fields (''         1         1 # period 1'' @ NL) < evt_ncodes 3" by code_simp
  have e4: "(0::nat) < snd (shape_nper (demo_model False 1) None)" by code_simp
  have e5: "control_error (''         1         1 # period 1'' @ NL) = ValueError" by code_simp
  have r1: "rch_line_at demo demo_rch_short_file (demo_model False 1) () None 0
       = Some (2, ''         1'' @ NL)" by code_simp
  have r2: "numeric_fields (''         1'' @ NL) = 1" by code_simp
  have r3: "numeric_fields (''         1'' @ NL) < rch_ncodes 2" by code_simp
  have r5: "control_error (''         1'' @ NL) = IndexError" by code_simp
  from short_control_line_fails[of demo demo_evt_short_file "demo_model False 1" "()" None 0 3
      "''         1         1 # period 1'' @ NL" None
      demo demo_rch_short_file "demo_model False 1" "()" None 0 2 "''         1'' @ NL"]
    e1 e3 e4 r1 r3
  have "evt_load demo demo_evt_short_file (demo_model False 1) () None None
          = Inl (control_error (''         1         1 # period 1'' @ NL))
      \<and> rch_load demo demo_rch_short_file (demo_model False 1) () None
          = Inl (control_error (''         1'' @ NL))"
    by blast
  with e1 e2 e5 r1 r2 r5 show ?thesis by simp
qed

text \<open>
  C10. After a successful load of a recharge file the budget flag of the record is 53
  when the second field of data set 2 is an integer other than zero, and 0 when the field
  is missing, is no integer or is zero: the number in the file is never stored.
\<close>

theorem rch_irchcb_is_0_or_53:
  assumes "rch_load C f m w na = Inr (R, sf)"
    and "rch_dataset2 f = Inr (line, f2)"
  shows "irchcb R =
     (if 1 < length (split (strip line))
         \<and> (\<exists>v. py_int (split (strip line) ! 1) = Some v \<and> v \<noteq> 0)
      then 53 else 0)"
proof -
  from rch_load_InrD[OF assms(1)] obtain nrchop' irchcb' f3 where
    hd: "rch_header f = Inr (nrchop', irchcb', f3)" and R: "irchcb R = irchcb'"
    by blast
  from hd assms(2) show ?thesis
    unfolding R
    by (auto simp: rch_header_def int_at_def Let_def
        split: sum.splits prod.splits option.splits if_splits)
qed

theorem rch_irchcb_is_0_or_53_witness:
  "\<not> isl (rch_load demo demo_rch_reuse_file (demo_model False 2) () None)
   \<and> rch_dataset2 demo_rch_reuse_file
       = Inr (''         2        40'' @ NL, drop 2 demo_rch_reuse_file)
   \<and> py_int (split (strip (''         2        40'' @ NL)) ! 1) = Some 40
   \<and> irchcb (fst (projr (rch_load demo demo_rch_reuse_file (demo_model False 2) () None))) = 53"
proof -
  let ?M = "rch_load demo demo_rch_reuse_file (demo_model False 2) () None"
  have r1: "\<not> isl ?M" by code_simp
  have r2: "rch_dataset2 demo_rch_reuse_file
       = Inr (''         2        40'' @ NL, drop 2 demo_rch_reuse_file)" by code_simp
  have r3: "py_int (split (strip (''         2        40'' @ NL)) ! 1) = Some 40" by code_simp
  have r4: "1 < length (split (strip (''         2        40'' @ NL)))" by code_simp
  from r1 have rd: "?M = Inr (fst (projr ?M), snd (projr ?M))" by simp
  from rch_irchcb_is_0_or_53[OF rd r2] r3 r4
  have "irchcb (fst (projr ?M)) = 53" by simp
  with r1 r2 r3 show ?thesis by simp
qed

text \<open>
  C4. In a mode that gates a quantity off (\<open>ievt\<close> unless the option code is 2; \<open>irch\<close>
  likewise), a stress period reads the whole control line but never decodes the code of
  the gated quantity and never reads an array for it: the result of the stress period (the
  position in the file included) is the same whatever follows the decoded codes on the
  control line, the dictionary or list and the current object of the gated quantity are
  unchanged, and when the other codes are negative the file is advanced past the control
  line only.
\<close>

theorem gated_quantity_reads_nothing:
  "(nevtop' \<noteq> 2 \<and> take 3 (split (strip l1)) = take 3 (split (strip l2)) \<longrightarrow>
      evt_step C vb shape nevtop' npar pp iper (io\<lparr>fh := l1 # rest\<rparr>, v)
        = evt_step C vb shape nevtop' npar pp iper (io\<lparr>fh := l2 # rest\<rparr>, v))
   \<and> (nevtop' \<noteq> 2 \<and> evt_step C vb shape nevtop' npar pp iper s = Inr s' \<longrightarrow>
      ievt_d (snd s') = ievt_d (snd s) \<and> current_ievt (snd s') = current_ievt (snd s))
   \<and> (nevtop' \<noteq> 2 \<and> evt_control nevtop' (fst (readline (fh (fst s)))) = Inr (a, b, c, d)
        \<and> a < 0 \<and> b < 0 \<and> c < 0 \<longrightarrow>
      (\<exists>v'. evt_step C vb shape nevtop' npar pp iper s
               = Inr ((fst s)\<lparr>fh := snd (readline (fh (fst s)))\<rparr>, v')))
   \<and> (nrchop' \<noteq> 2 \<and> take 1 (split (strip k1)) = take 1 (split (strip k2)) \<longrightarrow>
      rch_step C' vb' shape' nrchop' iper' (jo\<lparr>fh := k1 # rest'\<rparr>, u)
        = rch_step C' vb' shape' nrchop' iper' (jo\<lparr>fh := k2 # rest'\<rparr>, u))
   \<and> (nrchop' \<noteq> 2 \<and> rch_step C' vb' shape' nrchop' iper' r = Inr r' \<longrightarrow>
      irch_l (snd r') = irch_l (snd r) \<and> current_irch (snd r') = current_irch (snd r))
   \<and> (nrchop' \<noteq> 2 \<and> rch_control nrchop' (fst (readline (fh (fst r)))) = Inr (a', d')
        \<and> a' < 0 \<longrightarrow>
      (\<exists>u'. rch_step C' vb' shape' nrchop' iper' r
               = Inr ((fst r)\<lparr>fh := snd (readline (fh (fst r)))\<rparr>, u')))"
proof (intro conjI impI)
  assume "nevtop' \<noteq> 2 \<and> take 3 (split (strip l1)) = take 3 (split (strip l2))"
  then show "evt_step C vb shape nevtop' npar pp iper (io\<lparr>fh := l1 # rest\<rparr>, v)
        = evt_step C vb shape nevtop' npar pp iper (io\<lparr>fh := l2 # rest\<rparr>, v)"
    using evt_step_gated by blast
next
  assume h: "nevtop' \<noteq> 2 \<and> evt_step C vb shape nevtop' npar pp iper s = Inr s'"
  then show "ievt_d (snd s') = ievt_d (snd s)" using evt_step_dicts(5) by blast
  from h show "current_ievt (snd s') = current_ievt (snd s)" using evt_step_dicts(5) by blast
next
  assume h: "nevtop' \<noteq> 2 \<and> evt_control nevtop' (fst (readline (fh (fst s)))) = Inr (a, b, c, d)
        \<and> a < 0 \<and> b < 0 \<and> c < 0"
  with evt_control_gate[of nevtop' "fst (readline (fh (fst s)))" a b c d] have "d = None" by auto
  with h evt_step_all_negative[of nevtop' s a b c d C vb shape npar pp iper]
  show "\<exists>v'. evt_step C vb shape nevtop' npar pp iper s
               = Inr ((fst s)\<lparr>fh := snd (readline (fh (fst s)))\<rparr>, v')" by simp
next
  assume "nrchop' \<noteq> 2 \<and> take 1 (split (strip k1)) = take 1 (split (strip k2))"
  then show "rch_step C' vb' shape' nrchop' iper' (jo\<lparr>fh := k1 # rest'\<rparr>, u)
        = rch_step C' vb' shape' nrchop' iper' (jo\<lparr>fh := k2 # rest'\<rparr>, u)"
    using rch_step_gated by blast
next
  assume h: "nrchop' \<noteq> 2 \<and> rch_step C' vb' shape' nrchop' iper' r = Inr r'"
  then show "irch_l (snd r') = irch_l (snd r)" using rch_step_lists(3) by blast
  from h show "current_irch (snd r') = current_irch (snd r)" using rch_step_lists(3) by blast
next
  assume h: "nrchop' \<noteq> 2 \<and> rch_control nrchop' (fst (readline (fh (fst r)))) = Inr (a', d')
        \<and> a' < 0"
  with rch_control_gate[of nrchop' "fst (readline (fh (fst r)))" a' d'] have "d' = None" by auto
  with h rch_step_all_negative[of nrchop' r a' d' C' vb' shape' iper']
  show "\<exists>u'. rch_step C' vb' shape' nrchop' iper' r
               = Inr ((fst r)\<lparr>fh := snd (readline (fh (fst r)))\<rparr>, u')" by simp
qed


theorem gated_quantity_reads_nothing_witness:
  "take 3 (split (strip (''        -1        -1        -1         1'' @ NL)))
     = take 3 (split (strip (''        -1        -1        -1'' @ NL)))
   \<and> evt_step demo False (Some (1, 2)) 3 0 None 0
        (demo_loader [''        -1        -1        -1         1'' @ NL, ''         5         6'' @ NL],
         snd (evt_init_locals (demo_loader [])))
      = evt_step demo False (Some (1, 2)) 3 0 None 0
        (demo_loader [''        -1        -1        -1'' @ NL, ''         5         6'' @ NL],
         snd (evt_init_locals (demo_loader [])))
   \<and> map_sum id fst (evt_step demo False (Some (1, 2)) 3 0 None 0
        (demo_loader [''        -1        -1        -1         1'' @ NL, ''         5         6'' @ NL],
         snd (evt_init_locals (demo_loader []))))
      = Inr (demo_loader [''         5         6'' @ NL])
   \<and> take 1 (split (strip (''        -1         1'' @ NL)))
     = take 1 (split (strip (''        -1'' @ NL)))
   \<and> rch_step demo False (Some (1, 2)) 3 0
        (demo_loader [''        -1         1'' @ NL, ''         5         6'' @ NL],
         snd (rch_init_locals [] ()))
      = rch_step demo False (Some (1, 2)) 3 0
        (demo_loader [''        -1'' @ NL, ''         5         6'' @ NL],
         snd (rch_init_locals [] ()))
   \<and> map_sum id fst (rch_step demo False (Some (1, 2)) 3 0
        (demo_loader [''        -1         1'' @ NL, ''         5         6'' @ NL],
         snd (rch_init_locals [] ())))
      = Inr (demo_loader [''         5         6'' @ NL])"
proof -
  let ?l1 = "''        -1        -1        -1         1'' @ NL"
  let ?l2 = "''        -1        -1        -1'' @ NL"
  let ?k1 = "''        -1         1'' @ NL"
  let ?k2 = "''        -1'' @ NL"
  let ?rest = "[''         5         6'' @ NL]"
  let ?v = "snd (evt_init_locals (demo_loader [])) :: int list list evt_locals"
  let ?u = "snd (rch_init_locals [] ()) :: int list list rch_locals"
  have e1: "take 3 (split (strip ?l1)) = take 3 (split (strip ?l2))" by code_simp
  have e2: "(3::int) \<noteq> 2" by simp
  have r1: "take 1 (split (strip ?k1)) = take 1 (split (strip ?k2))" by code_simp
  have io: "(demo_loader [])\<lparr>fh := l # ?rest\<rparr> = demo_loader (l # ?rest)" for l
    by (simp add: demo_loader_def)
  have e3: "map_sum id fst (evt_step demo False (Some (1, 2)) 3 0 None 0 (demo_loader (?l1 # ?rest), ?v))
      = Inr (demo_loader ?rest)" by code_simp
  have r3: "map_sum id fst (rch_step demo False (Some (1, 2)) 3 0 (demo_loader (?k1 # ?rest), ?u))
      = Inr (demo_loader ?rest)" by code_simp
  from gated_quantity_reads_nothing[where nevtop' = 3 and ?l1.0 = ?l1 and ?l2.0 = ?l2
      and C = demo and vb = False and shape = "Some (1, 2)" and npar = 0 and pp = None
      and iper = 0 and io = "demo_loader []" and rest = ?rest and v = ?v
      and nrchop' = 3 and ?k1.0 = ?k1 and ?k2.0 = ?k2 and C' = demo and vb' = False
      and shape' = "Some (1, 2)" and iper' = 0 and jo = "demo_loader []" and rest' = ?rest
      and u = ?u] e1 e2 r1
  have "evt_step demo False (Some (1, 2)) 3 0 None 0 (demo_loader (?l1 # ?rest), ?v)
      = evt_step demo False (Some (1, 2)) 3 0 None 0 (demo_loader (?l2 # ?rest), ?v)
    \<and> rch_step demo False (Some (1, 2)) 3 0 (demo_loader (?k1 # ?rest), ?u)
      = rch_step demo False (Some (1, 2)) 3 0 (demo_loader (?k2 # ?rest), ?u)"
    unfolding io by blast
  with e1 r1 e3 r3 show ?thesis by simp
qed





text \<open>
  C6. When the code \<open>c\<close> of the parametric quantity is not negative and parameters are
  declared (\<^verbatim>\<open>npar != 0\<close>), the stress period reads exactly \<open>c\<close> parameter-name lines: a
  parametric read that succeeds has advanced the file by \<open>c\<close> lines, and when fewer than
  \<open>c\<close> lines are left in the file it fails, with the \<^verbatim>\<open>IndexError\<close> that \<^verbatim>\<open>t[0]\<close> raises on
  the empty line \<^verbatim>\<open>readline\<close> returns at the end of the file. The same holds for the whole
  stress period when the codes before it read no array.
\<close>

theorem parameter_names_counted:
  "(0 \<le> c \<and> load_parametric C vb shape pp c io = Inr (t, io') \<longrightarrow>
      nat c \<le> length (fh io) \<and> fh io' = drop (nat c) (fh io))
   \<and> (length (fh io) < nat c \<longrightarrow> load_parametric C vb shape pp c io = Inl IndexError)
   \<and> (evt_control nevtop' line = Inr (a, c, e, d) \<and> a < 0 \<and> 0 \<le> c \<and> npar \<noteq> 0
        \<and> length rest < nat c \<longrightarrow>
      evt_step C vb shape nevtop' npar pp iper (jo\<lparr>fh := line # rest\<rparr>, v) = Inl IndexError)
   \<and> (evt_control nevtop' line = Inr (a, c, e, d) \<and> a < 0 \<and> e < 0 \<and> (\<forall>x. d = Some x \<longrightarrow> x < 0)
        \<and> 0 \<le> c \<and> npar \<noteq> 0
        \<and> evt_step C vb shape nevtop' npar pp iper (jo\<lparr>fh := line # rest\<rparr>, v) = Inr s' \<longrightarrow>
      nat c \<le> length rest \<and> fh (fst s') = drop (nat c) rest)"
proof (intro conjI impI)
  assume "0 \<le> c \<and> load_parametric C vb shape pp c io = Inr (t, io')"
  then show "nat c \<le> length (fh io)" "fh io' = drop (nat c) (fh io)"
    using load_parametric_consumed by blast+
next
  assume "length (fh io) < nat c"
  then show "load_parametric C vb shape pp c io = Inl IndexError"
    by (rule load_parametric_missing)
next
  assume "evt_control nevtop' line = Inr (a, c, e, d) \<and> a < 0 \<and> 0 \<le> c \<and> npar \<noteq> 0
        \<and> length rest < nat c"
  then show "evt_step C vb shape nevtop' npar pp iper (jo\<lparr>fh := line # rest\<rparr>, v) = Inl IndexError"
    using evt_step_parametric_missing by blast
next
  assume h: "evt_control nevtop' line = Inr (a, c, e, d) \<and> a < 0 \<and> e < 0 \<and> (\<forall>x. d = Some x \<longrightarrow> x < 0)
        \<and> 0 \<le> c \<and> npar \<noteq> 0
        \<and> evt_step C vb shape nevtop' npar pp iper (jo\<lparr>fh := line # rest\<rparr>, v) = Inr s'"
  then have "nat c \<le> length rest \<and> fh (fst s') = drop (nat c) rest"
    by (intro evt_step_parametric_consumed[where d = d and a = a and e = e and nevtop' = nevtop'
          and line = line and npar = npar and C = C and vb = vb and shape = shape and pp = pp
          and iper = iper and io = jo and v = v]) blast+
  then show "nat c \<le> length rest" "fh (fst s') = drop (nat c) rest" by blast+
qed

theorem parameter_names_counted_witness:
  "load_parametric demo False (Some (1, 2)) (Some demo_table) 2
        (demo_loader [''ET1 summer'' @ NL, ''ET1 winter'' @ NL, ''next'' @ NL])
     = Inr ((4, Array [[7, 7]]), \<lparr>fh = [''next'' @ NL], world = (), stdout = [], next_id = 5\<rparr>)
   \<and> drop (nat 2) (fh (demo_loader [''ET1 summer'' @ NL, ''ET1 winter'' @ NL, ''next'' @ NL]))
     = [''next'' @ NL]
   \<and> load_parametric demo False (Some (1, 2)) (Some demo_table) 2
        (demo_loader [''ET1 summer'' @ NL]) = Inl IndexError
   \<and> evt_step demo False (Some (1, 2)) 3 1 (Some demo_table) 0
        (demo_loader [''        -1         2        -1'' @ NL, ''ET1 summer'' @ NL],
         snd (evt_init_locals (demo_loader []))) = Inl IndexError
   \<and> evt_load demo demo_evt_par_short_file (demo_model False 1) () None None = Inl IndexError
   \<and> map_sum id (\<lambda>s. fh (fst s)) (evt_step demo False (Some (1, 2)) 3 1 (Some demo_table) 0
        (demo_loader [''        -1         1        -1'' @ NL, ''ET1 summer'' @ NL, ''next'' @ NL],
         snd (evt_init_locals (demo_loader [])))) = Inr [''next'' @ NL]"
proof -
  let ?io2 = "demo_loader [''ET1 summer'' @ NL, ''ET1 winter'' @ NL, ''next'' @ NL]"
  let ?io1 = "demo_loader [''ET1 summer'' @ NL]"
  let ?line = "''        -1         2        -1'' @ NL"
  let ?v = "snd (evt_init_locals (demo_loader [])) :: int list list evt_locals"
  have ok: "load_parametric demo False (Some (1, 2)) (Some demo_table) 2 ?io2
     = Inr ((4, Array [[7, 7]]), \<lparr>fh = [''next'' @ NL], world = (), stdout = [], next_id = 5\<rparr>)"
    by code_simp
  have short: "length (fh ?io1) < nat 2" by code_simp
  have ctl: "evt_control 3 ?line = Inr (- 1, 2, - 1, None)" by code_simp
  have rest: "length [''ET1 summer'' @ NL] < nat 2" by code_simp
  have full: "evt_load demo demo_evt_par_short_file (demo_model False 1) () None None = Inl IndexError"
    by code_simp
  have good: "map_sum id (\<lambda>s. fh (fst s)) (evt_step demo False (Some (1, 2)) 3 1 (Some demo_table) 0
        (demo_loader [''        -1         1        -1'' @ NL, ''ET1 summer'' @ NL, ''next'' @ NL],
         ?v)) = Inr [''next'' @ NL]" by code_simp
  have io: "(demo_loader [])\<lparr>fh := ?line # [''ET1 summer'' @ NL]\<rparr>
      = demo_loader [?line, ''ET1 summer'' @ NL]"
    by (simp add: demo_loader_def)
  have z: "(0::int) \<le> 2" "(- 1::int) < 0" "(1::int) \<noteq> 0" by simp_all
  from parameter_names_counted[where c = 2 and C = demo and vb = False and shape = "Some (1, 2)"
      and pp = "Some demo_table" and io = ?io2 and t = "(4, Array [[7, 7]])"
      and io' = "\<lparr>fh = [''next'' @ NL], world = (), stdout = [], next_id = 5\<rparr>"] ok z
  have A: "fh \<lparr>fh = [''next'' @ NL], world = (), stdout = [], next_id = 5\<rparr> = drop (nat 2) (fh ?io2)"
    by blast
  from parameter_names_counted[where c = 2 and C = demo and vb = False and shape = "Some (1, 2)"
      and pp = "Some demo_table" and io = ?io1 and nevtop' = 3 and line = ?line and a = "- 1"
      and e = "- 1" and d = None and npar = 1 and rest = "[''ET1 summer'' @ NL]" and iper = 0
      and jo = "demo_loader []" and v = ?v] short ctl rest z
  have B: "load_parametric demo False (Some (1, 2)) (Some demo_table) 2 ?io1 = Inl IndexError
     \<and> evt_step demo False (Some (1, 2)) 3 1 (Some demo_table) 0
          ((demo_loader [])\<lparr>fh := ?line # [''ET1 summer'' @ NL]\<rparr>, ?v) = Inl IndexError"
    by blast
  from A B ok full good show ?thesis
    unfolding io by simp
qed

end
